theory Spec2Isabelle
  imports Main "HOL-Library.Sublist"
begin

section \<open>The conversation store of the chat client\<close>

text \<open>
  The embedding follows \<^verbatim>\<open>frontend/src/types.ts\<close> and
  \<^verbatim>\<open>frontend/src/App.tsx\<close>. A JavaScript string is a \<^typ>\<open>string\<close>; an
  optional property is an \<^typ>\<open>'a option\<close>, \<open>None\<close> standing for
  \<^verbatim>\<open>undefined\<close> (and, for a header lookup, for \<^verbatim>\<open>null\<close>).
\<close>

subsection \<open>types.ts\<close>

datatype Role = User | Bot

datatype Status = Streaming | Ready | SavingEdit | StatusError

text \<open>
  \<^verbatim>\<open>interface ChatMessage\<close>. The field \<^verbatim>\<open>id\<close> is called \<open>msg_id\<close>
  here, because \<open>id\<close> is the identity function of HOL.
\<close>

record ChatMessage =
  msg_id :: string
  role :: Role
  content :: string
  turnId :: "string option"
  status :: "Status option"
  error :: "string option"

text \<open>
  \<^verbatim>\<open>Partial<ChatMessage>\<close>: every property may be missing (\<open>None\<close>). A
  property that is there holds a value of the field's type, which for the three optional
  fields may again be \<^verbatim>\<open>undefined\<close>: \<^verbatim>\<open>{ error: undefined }\<close> is
  \<open>c_error = Some None\<close>, and the object spread writes it over the old value.
\<close>

record Changes =
  c_id :: "string option"
  c_role :: "Role option"
  c_content :: "string option"
  c_turnId :: "string option option"
  c_status :: "Status option option"
  c_error :: "string option option"

definition no_changes :: Changes where
  "no_changes =
     \<lparr>c_id = None, c_role = None, c_content = None, c_turnId = None, c_status = None,
      c_error = None\<rparr>"

text \<open>The object spread \<^verbatim>\<open>{ ...message, ...changes }\<close>.\<close>

definition spread :: "ChatMessage \<Rightarrow> Changes \<Rightarrow> ChatMessage" where
  "spread message changes =
     \<lparr>msg_id = (case c_id changes of None \<Rightarrow> msg_id message | Some v \<Rightarrow> v),
      role = (case c_role changes of None \<Rightarrow> role message | Some v \<Rightarrow> v),
      content = (case c_content changes of None \<Rightarrow> content message | Some v \<Rightarrow> v),
      turnId = (case c_turnId changes of None \<Rightarrow> turnId message | Some v \<Rightarrow> v),
      status = (case c_status changes of None \<Rightarrow> status message | Some v \<Rightarrow> v),
      error = (case c_error changes of None \<Rightarrow> error message | Some v \<Rightarrow> v)\<rparr>"

subsection \<open>The state of the App component\<close>

record App_state =
  messages :: "ChatMessage list"
  isGenerating :: bool
  errorMessage :: "string option"

text \<open>
  The updater that \<^verbatim>\<open>markMessage\<close> hands to \<^verbatim>\<open>setMessages\<close>:
  \<^verbatim>\<open>prev.map((message) => (message.id === id ? { ...message, ...changes } : message))\<close>.
\<close>

definition markMessage :: "string \<Rightarrow> Changes \<Rightarrow> ChatMessage list \<Rightarrow> ChatMessage list" where
  "markMessage i changes prev =
     map (\<lambda>message. if msg_id message = i then spread message changes else message) prev"

text \<open>
  The updater of \<^verbatim>\<open>handleSend\<close>, \<^verbatim>\<open>(prev) => [...prev, userMessage, botMessage]\<close>,
  for any list of new messages.
\<close>

definition append_messages :: "ChatMessage list \<Rightarrow> ChatMessage list \<Rightarrow> ChatMessage list" where
  "append_messages new prev = prev @ new"

text \<open>
  What a handler does to the world, in the order it does it: the four state setters of
  the component, a request sent with \<^verbatim>\<open>fetch\<close> (its URL and its body), and a
  line written with \<^verbatim>\<open>console.warn\<close>. Every \<^verbatim>\<open>setMessages\<close> of the source
  is given an updater function, so an effect acts on the state that is current when it is
  applied.
\<close>

datatype effect =
    AppendMessages "ChatMessage list"
  | MarkMessage string Changes
  | SetIsGenerating bool
  | SetErrorMessage "string option"
  | Fetch string string
  | ConsoleWarn string

fun apply_effect :: "effect \<Rightarrow> App_state \<Rightarrow> App_state" where
  "apply_effect (AppendMessages new) s = s\<lparr>messages := append_messages new (messages s)\<rparr>"
| "apply_effect (MarkMessage i changes) s = s\<lparr>messages := markMessage i changes (messages s)\<rparr>"
| "apply_effect (SetIsGenerating b) s = s\<lparr>isGenerating := b\<rparr>"
| "apply_effect (SetErrorMessage e) s = s\<lparr>errorMessage := e\<rparr>"
| "apply_effect (Fetch url body) s = s"
| "apply_effect (ConsoleWarn text) s = s"

text \<open>The state after a sequence of effects, and every state on the way.\<close>

fun run :: "effect list \<Rightarrow> App_state \<Rightarrow> App_state" where
  "run [] s = s"
| "run (e # es) s = run es (apply_effect e s)"

fun trace :: "effect list \<Rightarrow> App_state \<Rightarrow> App_state list" where
  "trace [] s = [s]"
| "trace (e # es) s = s # trace es (apply_effect e s)"

text \<open>The patches of a sequence of effects, in order: the id aimed at and the changes.\<close>

fun patches :: "effect list \<Rightarrow> (string \<times> Changes) list" where
  "patches [] = []"
| "patches (MarkMessage i changes # es) = (i, changes) # patches es"
| "patches (e # es) = patches es"

section \<open>Values and objects of the platform\<close>

subsection \<open>Numbers as text\<close>

fun show_nat :: "nat \<Rightarrow> string" where
  "show_nat n =
     (if n < 10 then [''0123456789'' ! n]
      else show_nat (n div 10) @ [''0123456789'' ! (n mod 10)])"

declare show_nat.simps [simp del]

definition show_int :: "int \<Rightarrow> string" where
  "show_int k = (if k < 0 then ''-'' @ show_nat (nat (- k)) else show_nat (nat k))"

subsection \<open>Parsed JSON\<close>

text \<open>
  The value that \<^verbatim>\<open>response.json()\<close> resolves to. The members of an object are
  listed in the order of its keys, each key once. Numbers are the integers that JavaScript
  prints in plain decimal notation; fractions and exponents are left out of the embedding.
\<close>

datatype json =
    JNull
  | JBool bool
  | JNum int
  | JStr string
  | JArr "json list"
  | JObj "(string \<times> json) list"

text \<open>
  \<^verbatim>\<open>data?.key\<close> for the keys \<^verbatim>\<open>response\<close> and \<^verbatim>\<open>turn_id\<close>:
  only an object can own them; on \<^verbatim>\<open>null\<close>, a primitive or an array the
  expression is \<^verbatim>\<open>undefined\<close>.
\<close>

fun get_property :: "json \<Rightarrow> string \<Rightarrow> json option" where
  "get_property (JObj members) key = map_of members key"
| "get_property data key = None"

text \<open>Truthiness of a string and of a parsed value, \<open>None\<close> being \<^verbatim>\<open>undefined\<close>.\<close>

fun truthy_string :: "string option \<Rightarrow> bool" where
  "truthy_string None = False"
| "truthy_string (Some s) = (s \<noteq> [])"

fun truthy :: "json option \<Rightarrow> bool" where
  "truthy None = False"
| "truthy (Some JNull) = False"
| "truthy (Some (JBool b)) = b"
| "truthy (Some (JNum k)) = (k \<noteq> 0)"
| "truthy (Some (JStr s)) = (s \<noteq> [])"
| "truthy (Some (JArr xs)) = True"
| "truthy (Some (JObj members)) = True"

fun join_comma :: "string list \<Rightarrow> string" where
  "join_comma [] = []"
| "join_comma [x] = x"
| "join_comma (x # y # ys) = x @ '','' @ join_comma (y # ys)"

text \<open>\<^verbatim>\<open>String(value)\<close>; an array is joined with commas, \<^verbatim>\<open>null\<close> elements empty.\<close>

fun String_of :: "json \<Rightarrow> string" where
  "String_of JNull = ''null''"
| "String_of (JBool b) = (if b then ''true'' else ''false'')"
| "String_of (JNum k) = show_int k"
| "String_of (JStr s) = s"
| "String_of (JArr xs) = join_comma (map (\<lambda>x. if x = JNull then [] else String_of x) xs)"
| "String_of (JObj members) = ''[object Object]''"

text \<open>
  \<^verbatim>\<open>JSON.stringify\<close>. In a string the double quote (0x22), the backslash (0x5C)
  and the control characters below 0x20 are escaped.
\<close>

definition escape_char :: "char \<Rightarrow> string" where
  "escape_char c =
     (let n = (of_char c :: nat) in
      if n = 0x22 then [CHR 0x5C, CHR 0x22]
      else if n = 0x5C then [CHR 0x5C, CHR 0x5C]
      else if n = 0x08 then [CHR 0x5C, CHR ''b'']
      else if n = 0x09 then [CHR 0x5C, CHR ''t'']
      else if n = 0x0A then [CHR 0x5C, CHR ''n'']
      else if n = 0x0C then [CHR 0x5C, CHR ''f'']
      else if n = 0x0D then [CHR 0x5C, CHR ''r'']
      else if n < 0x20 then
        [CHR 0x5C, CHR ''u'', CHR ''0'', CHR ''0'',
         ''0123456789abcdef'' ! (n div 16), ''0123456789abcdef'' ! (n mod 16)]
      else [c])"

definition quote :: "string \<Rightarrow> string" where
  "quote s = [CHR 0x22] @ concat (map escape_char s) @ [CHR 0x22]"

fun JSON_stringify :: "json \<Rightarrow> string" where
  "JSON_stringify JNull = ''null''"
| "JSON_stringify (JBool b) = (if b then ''true'' else ''false'')"
| "JSON_stringify (JNum k) = show_int k"
| "JSON_stringify (JStr s) = quote s"
| "JSON_stringify (JArr xs) = ''['' @ join_comma (map JSON_stringify xs) @ '']''"
| "JSON_stringify (JObj members) =
     ''{'' @ join_comma (map (\<lambda>(key, v). quote key @ '':'' @ JSON_stringify v) members) @ ''}''"

text \<open>\<^verbatim>\<open>haystack.includes(needle)\<close>.\<close>

fun string_includes :: "string \<Rightarrow> string \<Rightarrow> bool" where
  "string_includes [] needle = (needle = [])"
| "string_includes (c # cs) needle = (prefix needle (c # cs) \<or> string_includes cs needle)"

subsection \<open>TextDecoder\<close>

text \<open>
  \<^verbatim>\<open>new TextDecoder()\<close> is the UTF-8 decoder of the Encoding standard, not fatal,
  not ignoring a byte order mark. A chunk is the list of its bytes. The text that comes
  out is kept as the UTF-8 bytes of its code points, so a well-formed sequence comes out
  as it went in, an ill-formed one as U+FFFD (EF BF BD), and U+FEFF at the very start of
  the stream is dropped. The decoder keeps the bytes of an unfinished sequence and the
  bounds of the next byte from one call to the next.
\<close>

record Decoder =
  bom_seen :: bool
  seen :: string
  needed :: nat
  lower :: nat
  upper :: nat

definition new_TextDecoder :: Decoder where
  "new_TextDecoder = \<lparr>bom_seen = False, seen = [], needed = 0, lower = 0x80, upper = 0xBF\<rparr>"

definition replacement :: string where
  "replacement = [CHR 0xEF, CHR 0xBF, CHR 0xBD]"

definition byte_order_mark :: string where
  "byte_order_mark = [CHR 0xEF, CHR 0xBB, CHR 0xBF]"

text \<open>One byte when no sequence is under way: the code points emitted and the new state.\<close>

definition lead_byte :: "Decoder \<Rightarrow> char \<Rightarrow> string list \<times> Decoder" where
  "lead_byte d b =
     (let n = (of_char b :: nat) in
      if n \<le> 0x7F then ([[b]], d\<lparr>seen := [], needed := 0, lower := 0x80, upper := 0xBF\<rparr>)
      else if 0xC2 \<le> n \<and> n \<le> 0xDF then
        ([], d\<lparr>seen := [b], needed := 1, lower := 0x80, upper := 0xBF\<rparr>)
      else if 0xE0 \<le> n \<and> n \<le> 0xEF then
        ([], d\<lparr>seen := [b], needed := 2,
               lower := (if n = 0xE0 then 0xA0 else 0x80),
               upper := (if n = 0xED then 0x9F else 0xBF)\<rparr>)
      else if 0xF0 \<le> n \<and> n \<le> 0xF4 then
        ([], d\<lparr>seen := [b], needed := 3,
               lower := (if n = 0xF0 then 0x90 else 0x80),
               upper := (if n = 0xF4 then 0x8F else 0xBF)\<rparr>)
      else ([replacement], d\<lparr>seen := [], needed := 0, lower := 0x80, upper := 0xBF\<rparr>))"

text \<open>
  One byte in any state. A byte outside the bounds ends the sequence under way with
  U+FFFD and is then read again as the first byte of a new sequence.
\<close>

definition decode_byte :: "Decoder \<Rightarrow> char \<Rightarrow> string list \<times> Decoder" where
  "decode_byte d b =
     (let n = (of_char b :: nat) in
      if needed d = 0 then lead_byte d b
      else if n < lower d \<or> upper d < n then
        (let (out, d') = lead_byte d b in (replacement # out, d'))
      else if needed d = 1 then
        ([seen d @ [b]], d\<lparr>seen := [], needed := 0, lower := 0x80, upper := 0xBF\<rparr>)
      else ([], d\<lparr>seen := seen d @ [b], needed := needed d - 1, lower := 0x80, upper := 0xBF\<rparr>))"

fun decode_bytes :: "Decoder \<Rightarrow> string \<Rightarrow> string list \<times> Decoder" where
  "decode_bytes d [] = ([], d)"
| "decode_bytes d (b # bs) =
     (let (out, d') = decode_byte d b; (outs, d'') = decode_bytes d' bs in (out @ outs, d''))"

text \<open>The code points of one call become text; the first of the stream is dropped if it is U+FEFF.\<close>

fun serialize :: "Decoder \<Rightarrow> string list \<Rightarrow> string \<times> Decoder" where
  "serialize d [] = ([], d)"
| "serialize d (x # xs) =
     (if \<not> bom_seen d \<and> x = byte_order_mark then (concat xs, d\<lparr>bom_seen := True\<rparr>)
      else (concat (x # xs), d\<lparr>bom_seen := True\<rparr>))"

text \<open>\<^verbatim>\<open>decoder.decode(value, { stream: true })\<close>: the text and the decoder after it.\<close>

definition decode_stream :: "Decoder \<Rightarrow> string \<Rightarrow> string \<times> Decoder" where
  "decode_stream d chunk = (let (out, d') = decode_bytes d chunk in serialize d' out)"

text \<open>\<^verbatim>\<open>decoder.decode()\<close> at the end of the stream: an unfinished sequence is U+FFFD.\<close>

definition decode_end :: "Decoder \<Rightarrow> string" where
  "decode_end d = fst (serialize d (if needed d \<noteq> 0 then [replacement] else []))"

subsection \<open>fetch and its Response\<close>

text \<open>
  A value caught by \<^verbatim>\<open>catch (error)\<close>: an instance of \<^verbatim>\<open>Error\<close> with its
  message, or anything else.
\<close>

datatype thrown = ErrorObject string | OtherValue

text \<open>\<^verbatim>\<open>error instanceof Error ? error.message : fallback\<close>.\<close>

fun message_or :: "thrown \<Rightarrow> string \<Rightarrow> string" where
  "message_or (ErrorObject message) fallback = message"
| "message_or OtherValue fallback = fallback"

text \<open>
  How the reads of \<^verbatim>\<open>response.body.getReader()\<close> end: with \<^verbatim>\<open>done\<close>, or
  with a rejected read.
\<close>

datatype stream_end = Done | ReadRejects thrown

text \<open>
  A Response, as far as the handlers look at it: the status code, the two headers they ask
  for, and what each way of reading the body gives. \<open>json_result\<close> is what
  \<^verbatim>\<open>await response.json()\<close> returns or throws, \<open>text_result\<close> the same for
  \<^verbatim>\<open>await response.text()\<close>, and \<open>body\<close> is \<^verbatim>\<open>response.body\<close>:
  \<open>None\<close> when it is \<^verbatim>\<open>null\<close>, else the chunks that the reader delivers one
  by one and how the stream ends. Every promise awaited is taken to settle.
\<close>

record Response =
  resp_status :: nat
  content_type :: "string option"
  x_turn_id :: "string option"
  json_result :: "thrown + json"
  body :: "(string list \<times> stream_end) option"
  text_result :: "thrown + string"

text \<open>\<^verbatim>\<open>response.ok\<close>: the status is in the range 200 to 299.\<close>

definition ok :: "Response \<Rightarrow> bool" where
  "ok response = (200 \<le> resp_status response \<and> resp_status response \<le> 299)"

text \<open>\<^verbatim>\<open>contentType && contentType.includes('application/json')\<close>.\<close>

definition is_json :: "Response \<Rightarrow> bool" where
  "is_json response =
     (case content_type response of
        None \<Rightarrow> False
      | Some contentType \<Rightarrow> contentType \<noteq> [] \<and> string_includes contentType ''application/json'')"

datatype fetch_outcome = FetchRejects thrown | FetchResolves Response

section \<open>The handlers of App.tsx\<close>

text \<open>
  \<^verbatim>\<open>createId\<close>: the prefix, a hyphen, and the random part that
  \<^verbatim>\<open>crypto.randomUUID()\<close> or \<^verbatim>\<open>Math.random()\<close> supplies.
\<close>

definition createId :: "string \<Rightarrow> string \<Rightarrow> string" where
  "createId pre random = pre @ ''-'' @ random"

subsection \<open>handleSend\<close>

text \<open>
  The loop over \<^verbatim>\<open>reader.read()\<close>, lines 71 to 80: the chunks still to come and
  the end of the stream are the arguments, the decoder and \<^verbatim>\<open>aggregate\<close> are the
  loop's variables. The result is \<^verbatim>\<open>finalContent\<close>, or what a read threw.
\<close>

fun read_stream ::
  "string \<Rightarrow> Decoder \<Rightarrow> string \<Rightarrow> string list \<Rightarrow> stream_end \<Rightarrow> effect list \<times> (thrown + string)"
where
  "read_stream botMessageId decoder aggregate [] Done =
     ([], Inr (aggregate @ decode_end decoder))"
| "read_stream botMessageId decoder aggregate [] (ReadRejects e) = ([], Inl e)"
| "read_stream botMessageId decoder aggregate (v # rest) ending =
     (let (decoded, decoder') = decode_stream decoder v;
          aggregate' = aggregate @ decoded;
          (effects, result) = read_stream botMessageId decoder' aggregate' rest ending
      in (MarkMessage botMessageId
            (no_changes\<lparr>c_content := Some aggregate', c_status := Some (Some Streaming)\<rparr>)
          # effects,
          result))"

text \<open>
  The \<^verbatim>\<open>try\<close> block from the answer of \<^verbatim>\<open>fetch\<close> up to the values of
  \<^verbatim>\<open>finalContent\<close> and \<^verbatim>\<open>turnId\<close>, lines 43 to 83: the patches made on
  the way, and either the two values or what was thrown. The variable \<^verbatim>\<open>turnId\<close>
  is \<open>turnId0\<close> as first assigned and \<open>turnId1\<close> after the JSON branch.
\<close>

definition generate ::
  "string \<Rightarrow> fetch_outcome \<Rightarrow> effect list \<times> (thrown + string \<times> string option)"
where
  "generate botMessageId outcome =
     (case outcome of
        FetchRejects e \<Rightarrow> ([], Inl e)
      | FetchResolves response \<Rightarrow>
          if \<not> ok response then
            ([], Inl (ErrorObject
               (''Unable to generate response ('' @ show_nat (resp_status response) @ '')'')))
          else
            let turnId0 = x_turn_id response in
            if is_json response then
              (case json_result response of
                 Inl e \<Rightarrow> ([], Inl e)
               | Inr data \<Rightarrow>
                   let finalContent =
                         (case get_property data ''response'' of
                            Some (JStr s) \<Rightarrow> s
                          | _ \<Rightarrow> JSON_stringify data);
                       turnId1 =
                         (case get_property data ''turn_id'' of
                            Some v \<Rightarrow>
                              if \<not> truthy_string turnId0 \<and> truthy (Some v)
                              then Some (String_of v) else turnId0
                          | None \<Rightarrow> turnId0)
                   in ([], Inr (finalContent, turnId1)))
            else
              (case body response of
                 Some (chunks, ending) \<Rightarrow>
                   (case read_stream botMessageId new_TextDecoder [] chunks ending of
                      (effects, Inl e) \<Rightarrow> (effects, Inl e)
                    | (effects, Inr finalContent) \<Rightarrow> (effects, Inr (finalContent, turnId0)))
               | None \<Rightarrow>
                   (case text_result response of
                      Inl e \<Rightarrow> ([], Inl e)
                    | Inr finalContent \<Rightarrow> ([], Inr (finalContent, turnId0)))))"

text \<open>
  \<^verbatim>\<open>handleSend\<close>, given the random parts of the two ids, the prompt and the answer
  of \<^verbatim>\<open>fetch\<close>. The handler reads nothing of the state: all it does is this
  sequence of effects.
\<close>

definition handleSend :: "string \<Rightarrow> string \<Rightarrow> string \<Rightarrow> fetch_outcome \<Rightarrow> effect list" where
  "handleSend userRandom botRandom prompt outcome =
     (let userMessage =
            \<lparr>msg_id = createId ''user'' userRandom, role = User, content = prompt,
             turnId = None, status = Some Ready, error = None\<rparr>;
          botMessageId = createId ''bot'' botRandom;
          botMessage =
            \<lparr>msg_id = botMessageId, role = Bot, content = [],
             turnId = None, status = Some Streaming, error = None\<rparr>;
          (effects, result) = generate botMessageId outcome
      in [AppendMessages [userMessage, botMessage], SetIsGenerating True, SetErrorMessage None,
          Fetch ''/generate_response'' (JSON_stringify (JObj [(''prompt'', JStr prompt)]))]
         @ effects
         @ (case result of
              Inr (finalContent, turnId1) \<Rightarrow>
                [MarkMessage botMessageId
                   (no_changes\<lparr>c_content := Some finalContent, c_status := Some (Some Ready),
                      c_turnId := Some turnId1, c_error := Some None\<rparr>)]
            | Inl e \<Rightarrow>
                (let err = message_or e ''Unexpected error'' in
                 [MarkMessage botMessageId
                    (no_changes\<lparr>c_content := Some [], c_status := Some (Some StatusError),
                       c_error := Some (Some err)\<rparr>),
                  SetErrorMessage (Some err)]))
         @ [SetIsGenerating False])"

subsection \<open>handleSaveEdit\<close>

text \<open>
  The \<^verbatim>\<open>try\<close> block from the answer of \<^verbatim>\<open>fetch\<close> up to the value of
  \<^verbatim>\<open>updatedContent\<close>, lines 116 to 137. A \<^verbatim>\<open>response.json()\<close> that throws
  is caught by the inner \<^verbatim>\<open>try\<close> and only logged.
\<close>

definition save_edit :: "string \<Rightarrow> fetch_outcome \<Rightarrow> effect list \<times> (thrown + string)" where
  "save_edit edited outcome =
     (case outcome of
        FetchRejects e \<Rightarrow> ([], Inl e)
      | FetchResolves response \<Rightarrow>
          if \<not> ok response then
            ([], Inl (ErrorObject
               (''Unable to save edit ('' @ show_nat (resp_status response) @ '')'')))
          else if is_json response then
            (case json_result response of
               Inr data \<Rightarrow>
                 ([], Inr (case get_property data ''response'' of
                             Some (JStr s) \<Rightarrow> s
                           | _ \<Rightarrow> edited))
             | Inl parseError \<Rightarrow>
                 ([ConsoleWarn ''Unable to parse JSON response from save_edit''], Inr edited))
          else ([], Inr edited))"

text \<open>
  \<^verbatim>\<open>handleSaveEdit\<close>, given the \<^verbatim>\<open>messages\<close> of its closure, the id, the
  edited text and the answer of \<^verbatim>\<open>fetch\<close>: its effects, and whether the promise it
  returns is fulfilled (\<open>Inr\<close>) or rejected with a thrown value (\<open>Inl\<close>).
  \<^verbatim>\<open>!targetMessage?.turnId\<close> holds when no message has the id, when the first that
  has it has no \<^verbatim>\<open>turnId\<close>, and when that is the empty string.
\<close>

definition handleSaveEdit ::
  "ChatMessage list \<Rightarrow> string \<Rightarrow> string \<Rightarrow> fetch_outcome \<Rightarrow> effect list \<times> (thrown + unit)"
where
  "handleSaveEdit msgs messageId edited outcome =
     (case find (\<lambda>message. msg_id message = messageId) msgs of
        None \<Rightarrow> ([], Inl (ErrorObject ''Missing turn ID for this message.''))
      | Some targetMessage \<Rightarrow>
          (case turnId targetMessage of
             None \<Rightarrow> ([], Inl (ErrorObject ''Missing turn ID for this message.''))
           | Some tid \<Rightarrow>
               if tid = [] then ([], Inl (ErrorObject ''Missing turn ID for this message.''))
               else
                 (let (effects, result) = save_edit edited outcome
                  in ([MarkMessage messageId (no_changes\<lparr>c_status := Some (Some SavingEdit)\<rparr>),
                       Fetch ''/save_edit''
                         (JSON_stringify
                            (JObj [(''turn_id'', JStr tid), (''content'', JStr edited)]))]
                      @ effects
                      @ (case result of
                           Inr updatedContent \<Rightarrow>
                             [MarkMessage messageId
                                (no_changes\<lparr>c_content := Some updatedContent,
                                   c_status := Some (Some Ready), c_error := Some None\<rparr>)]
                         | Inl e \<Rightarrow>
                             [MarkMessage messageId
                                (no_changes\<lparr>c_status := Some (Some Ready),
                                   c_error :=
                                     Some (Some (message_or e
                                       ''Unexpected error while saving edit.''))\<rparr>)]),
                      (case result of Inr updatedContent \<Rightarrow> Inr () | Inl e \<Rightarrow> Inl e)))))"

subsection \<open>Reading a whole stream\<close>

text \<open>
  The pieces of text that the decoder of \<open>read_stream\<close> returns for the chunks of a
  stream, one piece for each call of \<^verbatim>\<open>decoder.decode(value, { stream: true })\<close>, and
  the decoder after the last of them.
\<close>

fun decode_chunks :: "Decoder \<Rightarrow> string list \<Rightarrow> string list \<times> Decoder" where
  "decode_chunks d [] = ([], d)"
| "decode_chunks d (v # rest) =
     (let (decoded, d') = decode_stream d v; (pieces, d'') = decode_chunks d' rest
      in (decoded # pieces, d''))"

text \<open>The patch of line 77 for a given value of \<^verbatim>\<open>aggregate\<close>.\<close>

definition streaming_patch :: "string \<Rightarrow> string \<Rightarrow> effect" where
  "streaming_patch botMessageId aggregate =
     MarkMessage botMessageId
       (no_changes\<lparr>c_content := Some aggregate, c_status := Some (Some Streaming)\<rparr>)"

text \<open>
  The values that \<^verbatim>\<open>aggregate\<close> takes while the chunks of a stream are read: after
  each chunk, all the pieces decoded so far, joined.
\<close>

definition aggregates :: "string list \<Rightarrow> string list" where
  "aggregates chunks =
     map (\<lambda>k. concat (take (Suc k) (fst (decode_chunks new_TextDecoder chunks))))
       [0..<length chunks]"

text \<open>The text of a whole stream: all the pieces and what the decoder gives at the end.\<close>

definition stream_text :: "string list \<Rightarrow> string" where
  "stream_text chunks =
     concat (fst (decode_chunks new_TextDecoder chunks))
     @ decode_end (snd (decode_chunks new_TextDecoder chunks))"

text \<open>
  The values of \<^verbatim>\<open>aggregate\<close> that \<open>handleSend\<close> writes into the bot message for an
  answer of \<^verbatim>\<open>fetch\<close>: those of the stream when the body is read as a stream, none
  otherwise.
\<close>

definition streamed :: "fetch_outcome \<Rightarrow> string list" where
  "streamed outcome =
     (case outcome of
        FetchRejects e \<Rightarrow> []
      | FetchResolves response \<Rightarrow>
          if ok response \<and> \<not> is_json response then
            (case body response of Some (chunks, ending) \<Rightarrow> aggregates chunks | None \<Rightarrow> [])
          else [])"

text \<open>
  The effects of \<open>handleSend\<close> after the body is read, lines 85 to 98: the last patch of
  the \<^verbatim>\<open>try\<close> block, or the patch and the page-level error of the \<^verbatim>\<open>catch\<close> block.
\<close>

definition final_effects :: "string \<Rightarrow> thrown + string \<times> string option \<Rightarrow> effect list" where
  "final_effects botMessageId result =
     (case result of
        Inr (finalContent, turnId1) \<Rightarrow>
          [MarkMessage botMessageId
             (no_changes\<lparr>c_content := Some finalContent, c_status := Some (Some Ready),
                c_turnId := Some turnId1, c_error := Some None\<rparr>)]
      | Inl e \<Rightarrow>
          (let err = message_or e ''Unexpected error'' in
           [MarkMessage botMessageId
              (no_changes\<lparr>c_content := Some [], c_status := Some (Some StatusError),
                 c_error := Some (Some err)\<rparr>),
            SetErrorMessage (Some err)]))"

text \<open>The bot message as \<open>handleSend\<close> creates it.\<close>

definition new_botMessage :: "string \<Rightarrow> ChatMessage" where
  "new_botMessage botRandom =
     \<lparr>msg_id = createId ''bot'' botRandom, role = Bot, content = [],
      turnId = None, status = Some Streaming, error = None\<rparr>"

subsection \<open>Values for the examples\<close>

definition message_a :: ChatMessage where
  "message_a =
     \<lparr>msg_id = ''user-1'', role = User, content = ''hello'', turnId = None,
      status = Some Ready, error = None\<rparr>"

definition message_b :: ChatMessage where
  "message_b =
     \<lparr>msg_id = ''bot-1'', role = Bot, content = ''hi'', turnId = Some ''t1'',
      status = Some Ready, error = None\<rparr>"

definition message_c :: ChatMessage where
  "message_c =
     \<lparr>msg_id = ''bot-2'', role = Bot, content = ''partial'', turnId = None,
      status = Some Streaming, error = None\<rparr>"

definition state_ab :: App_state where
  "state_ab = \<lparr>messages = [message_a, message_b], isGenerating = False, errorMessage = None\<rparr>"

definition response_200 :: Response where
  "response_200 =
     \<lparr>resp_status = 200, content_type = None, x_turn_id = None,
      json_result = Inl (ErrorObject ''Unexpected end of JSON input''),
      body = None, text_result = Inr []\<rparr>"

definition data_hi :: json where
  "data_hi = JObj [(''response'', JStr ''hi''), (''turn_id'', JStr ''t1'')]"

definition response_hi :: Response where
  "response_hi =
     \<lparr>resp_status = 200, content_type = Some ''application/json'', x_turn_id = None,
      json_result = Inr data_hi,
      body = Some ([JSON_stringify data_hi], Done),
      text_result = Inr (JSON_stringify data_hi)\<rparr>"

definition response_hello :: Response where
  "response_hello =
     \<lparr>resp_status = 200, content_type = Some ''text/plain'', x_turn_id = None,
      json_result = Inl (ErrorObject ''Unexpected token H in JSON at position 0''),
      body = Some ([''He'', ''llo''], Done),
      text_result = Inr ''Hello''\<rparr>"

definition state_ac :: App_state where
  "state_ac = \<lparr>messages = [message_a, message_c], isGenerating = False, errorMessage = None\<rparr>"

section \<open>Properties of the store\<close>

lemma length_markMessage: "length (markMessage i changes prev) = length prev"
  by (simp add: markMessage_def)

lemma nth_markMessage:
  "n < length prev \<Longrightarrow>
   markMessage i changes prev ! n =
     (if msg_id (prev ! n) = i then spread (prev ! n) changes else prev ! n)"
  by (simp add: markMessage_def)

lemma markMessage_absent:
  "i \<notin> msg_id ` set prev \<Longrightarrow> markMessage i changes prev = prev"
  unfolding markMessage_def by (induction prev) auto

lemma length_apply_effect: "length (messages s) \<le> length (messages (apply_effect e s))"
  by (cases e) (simp_all add: append_messages_def length_markMessage)

lemma nth_apply_effect_frame:
  assumes "n < length (messages s)" and "msg_id (messages s ! n) \<notin> fst ` set (patches [e])"
  shows "messages (apply_effect e s) ! n = messages s ! n"
  using assms by (cases e) (simp_all add: append_messages_def nth_markMessage nth_append)

lemma patches_Cons: "patches (e # es) = patches [e] @ patches es"
  by (cases e) simp_all

lemma run_frame:
  "n < length (messages s) \<Longrightarrow> msg_id (messages s ! n) \<notin> fst ` set (patches es) \<Longrightarrow>
   n < length (messages (run es s)) \<and> messages (run es s) ! n = messages s ! n"
proof (induction es arbitrary: s)
  case Nil
  then show ?case by simp
next
  case (Cons e es)
  from Cons.prems(2) have t1: "msg_id (messages s ! n) \<notin> fst ` set (patches [e])"
    and t2: "msg_id (messages s ! n) \<notin> fst ` set (patches es)"
    using patches_Cons [of e es] by auto
  have same: "messages (apply_effect e s) ! n = messages s ! n"
    using Cons.prems(1) t1 by (rule nth_apply_effect_frame)
  have len: "n < length (messages (apply_effect e s))"
    using Cons.prems(1) length_apply_effect [of s e] by simp
  from Cons.IH [OF len] same t2 show ?case by simp
qed

text \<open>
  Claim C9. Take any state and any sequence of effects (appends and patches among them).
  A message of the log whose id no patch of the sequence is aimed at is still there, at the
  same place, with every field as it was; and a patch aimed at an id that no message of the
  log has returns the log as it was.
\<close>

theorem store_frame:
  "(n < length (messages s) \<and> msg_id (messages s ! n) \<notin> fst ` set (patches es) \<longrightarrow>
      n < length (messages (run es s)) \<and> messages (run es s) ! n = messages s ! n) \<and>
   (i \<notin> msg_id ` set (messages s) \<longrightarrow>
      messages (apply_effect (MarkMessage i changes) s) = messages s)"
  using run_frame [of n s es] markMessage_absent [of i "messages s" changes] by simp

theorem store_frame_witness:
  "(0 < length (messages state_ab) \<and>
    msg_id (messages state_ab ! 0) \<notin>
      fst ` set (patches [AppendMessages [message_c],
                          MarkMessage ''bot-1'' (no_changes\<lparr>c_content := Some ''edited''\<rparr>),
                          MarkMessage ''bot-2'' (no_changes\<lparr>c_status := Some (Some Ready)\<rparr>)])) \<and>
   messages (run [AppendMessages [message_c],
                  MarkMessage ''bot-1'' (no_changes\<lparr>c_content := Some ''edited''\<rparr>),
                  MarkMessage ''bot-2'' (no_changes\<lparr>c_status := Some (Some Ready)\<rparr>)] state_ab) ! 0
     = message_a \<and>
   ''bot-9'' \<notin> msg_id ` set (messages state_ab) \<and>
   messages (apply_effect (MarkMessage ''bot-9'' (no_changes\<lparr>c_content := Some ''lost''\<rparr>)) state_ab)
     = [message_a, message_b]"
proof -
  have h1: "0 < length (messages state_ab) \<and>
    msg_id (messages state_ab ! 0) \<notin>
      fst ` set (patches [AppendMessages [message_c],
                          MarkMessage ''bot-1'' (no_changes\<lparr>c_content := Some ''edited''\<rparr>),
                          MarkMessage ''bot-2'' (no_changes\<lparr>c_status := Some (Some Ready)\<rparr>)])"
    by (simp add: state_ab_def message_a_def)
  have h2: "''bot-9'' \<notin> msg_id ` set (messages state_ab)"
    by (simp add: state_ab_def message_a_def message_b_def)
  from h1 h2
    store_frame [of 0 state_ab
      "[AppendMessages [message_c],
        MarkMessage ''bot-1'' (no_changes\<lparr>c_content := Some ''edited''\<rparr>),
        MarkMessage ''bot-2'' (no_changes\<lparr>c_status := Some (Some Ready)\<rparr>)]"
      "''bot-9''" "no_changes\<lparr>c_content := Some ''lost''\<rparr>"]
  show ?thesis by (simp add: state_ab_def)
qed

text \<open>
  Claim C10. For every id and every set of changes, the list that \<open>markMessage\<close> returns
  is as long as the one it was given, and its entry at each place is the entry that was at
  that place: rewritten by the spread if its id is the one aimed at, untouched if not. So
  nothing is inserted, deleted, duplicated or moved.
\<close>

theorem markMessage_in_place:
  "length (markMessage i changes prev) = length prev \<and>
   (n < length prev \<longrightarrow>
      markMessage i changes prev ! n =
        (if msg_id (prev ! n) = i then spread (prev ! n) changes else prev ! n))"
  using length_markMessage [of i changes prev] nth_markMessage [of n prev i changes] by simp

theorem markMessage_in_place_witness:
  "length (markMessage ''bot-1'' (no_changes\<lparr>c_content := Some ''edited''\<rparr>)
             [message_a, message_b, message_c]) = 3 \<and>
   (1::nat) < length [message_a, message_b, message_c] \<and>
   markMessage ''bot-1'' (no_changes\<lparr>c_content := Some ''edited''\<rparr>)
     [message_a, message_b, message_c] ! 1 = message_b\<lparr>content := ''edited''\<rparr>"
  using markMessage_in_place [of "''bot-1''" "no_changes\<lparr>c_content := Some ''edited''\<rparr>"
      "[message_a, message_b, message_c]" 1]
  by (simp add: message_b_def spread_def no_changes_def)

section \<open>Properties of handleSaveEdit\<close>

lemma string_includes_start: "prefix needle xs \<Longrightarrow> string_includes xs needle"
  by (cases xs) auto

lemma string_includes_mid: "string_includes (ps @ needle @ ss) needle"
  by (induction ps) (simp_all add: string_includes_start)

lemma run_append: "run (xs @ ys) s = run ys (run xs s)"
  by (induction xs arbitrary: s) simp_all

lemma spread_status: "spread m (no_changes\<lparr>c_status := Some st\<rparr>) = m\<lparr>status := st\<rparr>"
  by (simp add: spread_def no_changes_def)

lemma spread_status_error:
  "spread m (no_changes\<lparr>c_status := Some st, c_error := Some e\<rparr>) = m\<lparr>status := st, error := e\<rparr>"
  by (simp add: spread_def no_changes_def)

lemma spread_content_status_error:
  "spread m (no_changes\<lparr>c_content := Some c, c_status := Some st, c_error := Some e\<rparr>)
     = m\<lparr>content := c, status := st, error := e\<rparr>"
  by (simp add: spread_def no_changes_def)

lemma run_save_edit: "run (fst (save_edit edited outcome)) s = s"
  by (simp add: save_edit_def split: fetch_outcome.splits sum.splits)

lemma handleSaveEdit_missing:
  assumes "find (\<lambda>message. msg_id message = messageId) msgs = Some target"
    and "\<not> truthy_string (turnId target)"
  shows "handleSaveEdit msgs messageId edited outcome =
           ([], Inl (ErrorObject ''Missing turn ID for this message.''))"
  using assms by (auto simp: handleSaveEdit_def split: option.splits)

lemma handleSaveEdit_sent:
  assumes "find (\<lambda>message. msg_id message = messageId) msgs = Some target"
    and "turnId target = Some tid" and "tid \<noteq> []"
  shows "handleSaveEdit msgs messageId edited outcome =
     ([MarkMessage messageId (no_changes\<lparr>c_status := Some (Some SavingEdit)\<rparr>),
       Fetch ''/save_edit''
         (JSON_stringify (JObj [(''turn_id'', JStr tid), (''content'', JStr edited)]))]
      @ fst (save_edit edited outcome)
      @ (case snd (save_edit edited outcome) of
           Inr updatedContent \<Rightarrow>
             [MarkMessage messageId
                (no_changes\<lparr>c_content := Some updatedContent,
                   c_status := Some (Some Ready), c_error := Some None\<rparr>)]
         | Inl e \<Rightarrow>
             [MarkMessage messageId
                (no_changes\<lparr>c_status := Some (Some Ready),
                   c_error := Some (Some (message_or e ''Unexpected error while saving edit.''))\<rparr>)]),
      (case snd (save_edit edited outcome) of Inr updatedContent \<Rightarrow> Inr () | Inl e \<Rightarrow> Inl e))"
  using assms by (simp add: handleSaveEdit_def split: prod.splits)

lemma save_edit_refused:
  assumes "outcome = FetchRejects e \<or>
           (\<exists>r. outcome = FetchResolves r \<and> \<not> ok r \<and>
              e = ErrorObject (''Unable to save edit ('' @ show_nat (resp_status r) @ '')''))"
  shows "save_edit edited outcome = ([], Inl e)"
  using assms by (auto simp: save_edit_def)

lemma save_edit_kept:
  assumes "ok r"
    and "\<not> is_json r \<or> (\<exists>e. json_result r = Inl e) \<or>
         (\<exists>data. json_result r = Inr data \<and>
            (\<forall>t. get_property data ''response'' \<noteq> Some (JStr t)))"
  shows "snd (save_edit edited (FetchResolves r)) = Inr edited"
  using assms by (auto simp: save_edit_def split: sum.splits option.splits json.splits)

text \<open>
  Claim C6. When the message that \<open>handleSaveEdit\<close> finds under the id carries no
  \<open>turnId\<close> (or an empty one), the call is rejected with the error
  \<open>Missing turn ID for this message.\<close> and has no effect at all: no request is sent, no
  patch is made, and the only state there ever is, is the one before the call; the status
  \<open>saving-edit\<close> is never written.
\<close>

theorem save_edit_without_turnId:
  assumes "find (\<lambda>message. msg_id message = messageId) (messages s) = Some target"
    and "\<not> truthy_string (turnId target)"
  shows "handleSaveEdit (messages s) messageId edited outcome =
           ([], Inl (ErrorObject ''Missing turn ID for this message.'')) \<and>
         trace (fst (handleSaveEdit (messages s) messageId edited outcome)) s = [s]"
  using handleSaveEdit_missing [OF assms, of edited outcome] by simp

theorem save_edit_without_turnId_witness:
  "find (\<lambda>message. msg_id message = ''bot-2'') (messages state_ac) = Some message_c \<and>
   \<not> truthy_string (turnId message_c) \<and>
   handleSaveEdit (messages state_ac) ''bot-2'' ''edited'' (FetchResolves response_200) =
     ([], Inl (ErrorObject ''Missing turn ID for this message.'')) \<and>
   trace (fst (handleSaveEdit (messages state_ac) ''bot-2'' ''edited''
                 (FetchResolves response_200))) state_ac = [state_ac]"
proof -
  have h1: "find (\<lambda>message. msg_id message = ''bot-2'') (messages state_ac) = Some message_c"
    by (simp add: state_ac_def message_a_def message_c_def)
  have h2: "\<not> truthy_string (turnId message_c)"
    by (simp add: message_c_def)
  from h1 h2 save_edit_without_turnId [OF h1 h2, of "''edited''" "FetchResolves response_200"]
  show ?thesis by simp
qed

text \<open>
  Claim C5. Let the message found under the id carry a \<open>turnId\<close>, and let the request to
  \<open>/save_edit\<close> fail: \<open>fetch\<close> rejects with \<open>e\<close>, or the response has a status outside
  200 to 299, for which \<open>e\<close> is the error \<open>Unable to save edit (status)\<close>. Then the
  handler marks the message \<open>saving-edit\<close>, sends the request, and patches the message
  with status \<open>ready\<close> and the message of \<open>e\<close> as \<open>error\<close>; it rejects with \<open>e\<close>
  itself. No state on the way differs from the first in the content of any message, the
  last state differs from the first only in the status and the error of the messages with
  that id, and for a response the error text includes the status code.
\<close>

theorem failed_save_edit:
  assumes "find (\<lambda>message. msg_id message = messageId) (messages s) = Some target"
    and "turnId target = Some tid" and "tid \<noteq> []"
    and "outcome = FetchRejects e \<or>
           (\<exists>r. outcome = FetchResolves r \<and> \<not> ok r \<and>
              e = ErrorObject (''Unable to save edit ('' @ show_nat (resp_status r) @ '')''))"
  shows "handleSaveEdit (messages s) messageId edited outcome =
           ([MarkMessage messageId (no_changes\<lparr>c_status := Some (Some SavingEdit)\<rparr>),
             Fetch ''/save_edit''
               (JSON_stringify (JObj [(''turn_id'', JStr tid), (''content'', JStr edited)])),
             MarkMessage messageId
               (no_changes\<lparr>c_status := Some (Some Ready),
                  c_error := Some (Some (message_or e ''Unexpected error while saving edit.''))\<rparr>)],
            Inl e) \<and>
         (\<forall>t \<in> set (trace (fst (handleSaveEdit (messages s) messageId edited outcome)) s).
            map content (messages t) = map content (messages s)) \<and>
         run (fst (handleSaveEdit (messages s) messageId edited outcome)) s =
           s\<lparr>messages :=
               map (\<lambda>message.
                      if msg_id message = messageId
                      then message\<lparr>status := Some Ready,
                             error := Some (message_or e ''Unexpected error while saving edit.'')\<rparr>
                      else message)
                 (messages s)\<rparr> \<and>
         (\<forall>r. outcome = FetchResolves r \<longrightarrow>
            string_includes (message_or e ''Unexpected error while saving edit.'')
              (show_nat (resp_status r)))"
proof -
  have se: "save_edit edited outcome = ([], Inl e)"
    using assms(4) by (rule save_edit_refused)
  have hs: "handleSaveEdit (messages s) messageId edited outcome =
           ([MarkMessage messageId (no_changes\<lparr>c_status := Some (Some SavingEdit)\<rparr>),
             Fetch ''/save_edit''
               (JSON_stringify (JObj [(''turn_id'', JStr tid), (''content'', JStr edited)])),
             MarkMessage messageId
               (no_changes\<lparr>c_status := Some (Some Ready),
                  c_error := Some (Some (message_or e ''Unexpected error while saving edit.''))\<rparr>)],
            Inl e)"
    using handleSaveEdit_sent [OF assms(1-3), of edited outcome] se by simp
  have tr: "\<forall>t \<in> set (trace (fst (handleSaveEdit (messages s) messageId edited outcome)) s).
            map content (messages t) = map content (messages s)"
    unfolding hs
    by (simp add: markMessage_def spread_status spread_status_error comp_def if_distrib
        cong: if_cong)
  have st: "run (fst (handleSaveEdit (messages s) messageId edited outcome)) s =
           s\<lparr>messages :=
               map (\<lambda>message.
                      if msg_id message = messageId
                      then message\<lparr>status := Some Ready,
                             error := Some (message_or e ''Unexpected error while saving edit.'')\<rparr>
                      else message)
                 (messages s)\<rparr>"
    unfolding hs by (simp add: markMessage_def spread_status spread_status_error)
  have inc: "\<forall>r. outcome = FetchResolves r \<longrightarrow>
            string_includes (message_or e ''Unexpected error while saving edit.'')
              (show_nat (resp_status r))"
    using assms(4) string_includes_mid [of "''Unable to save edit (''" _ "'')''"] by auto
  from hs tr st inc show ?thesis by blast
qed

theorem failed_save_edit_witness:
  "find (\<lambda>message. msg_id message = ''bot-1'') (messages state_ab) = Some message_b \<and>
   turnId message_b = Some ''t1'' \<and>
   \<not> ok (response_200\<lparr>resp_status := 400\<rparr>) \<and>
   snd (handleSaveEdit (messages state_ab) ''bot-1'' ''edited''
          (FetchResolves (response_200\<lparr>resp_status := 400\<rparr>)))
     = Inl (ErrorObject ''Unable to save edit (400)'') \<and>
   messages (run (fst (handleSaveEdit (messages state_ab) ''bot-1'' ''edited''
                         (FetchResolves (response_200\<lparr>resp_status := 400\<rparr>)))) state_ab)
     = [message_a, message_b\<lparr>status := Some Ready, error := Some ''Unable to save edit (400)''\<rparr>] \<and>
   string_includes ''Unable to save edit (400)'' ''400''"
proof -
  have h1: "find (\<lambda>message. msg_id message = ''bot-1'') (messages state_ab) = Some message_b"
    by (simp add: state_ab_def message_a_def message_b_def)
  have h2: "turnId message_b = Some ''t1''"
    by (simp add: message_b_def)
  have h3: "''t1'' \<noteq> []"
    by simp
  have n: "show_nat 400 = ''400''"
    by (simp add: show_nat.simps)
  have h4: "FetchResolves (response_200\<lparr>resp_status := 400\<rparr>) =
              FetchRejects (ErrorObject ''Unable to save edit (400)'') \<or>
            (\<exists>r. FetchResolves (response_200\<lparr>resp_status := 400\<rparr>) = FetchResolves r \<and>
               \<not> ok r \<and>
               ErrorObject ''Unable to save edit (400)'' =
                 ErrorObject (''Unable to save edit ('' @ show_nat (resp_status r) @ '')''))"
    by (simp add: ok_def n)
  note fact = failed_save_edit [OF h1 h2 h3 h4, of "''edited''"]
  have r1: "snd (handleSaveEdit (messages state_ab) ''bot-1'' ''edited''
                   (FetchResolves (response_200\<lparr>resp_status := 400\<rparr>)))
              = Inl (ErrorObject ''Unable to save edit (400)'')"
    using fact [THEN conjunct1] by simp
  have r2: "messages (run (fst (handleSaveEdit (messages state_ab) ''bot-1'' ''edited''
                         (FetchResolves (response_200\<lparr>resp_status := 400\<rparr>)))) state_ab)
     = [message_a, message_b\<lparr>status := Some Ready, error := Some ''Unable to save edit (400)''\<rparr>]"
    using fact [THEN conjunct2, THEN conjunct2, THEN conjunct1]
    by (simp add: state_ab_def message_a_def message_b_def)
  have r3: "string_includes ''Unable to save edit (400)'' ''400''"
    using fact [THEN conjunct2, THEN conjunct2, THEN conjunct2] n by simp
  have r0: "\<not> ok (response_200\<lparr>resp_status := 400\<rparr>)"
    by (simp add: ok_def)
  from h1 h2 r0 r1 r2 r3 show ?thesis by blast
qed

text \<open>
  Claim C8. Let the message found under the id carry a \<open>turnId\<close>, and let the response
  to \<open>/save_edit\<close> have a status from 200 to 299. If its content type is not JSON, or
  \<open>response.json()\<close> throws, or the parsed body has no \<open>response\<close> property that is a
  string, then the call is fulfilled, not rejected, and the last state differs from the
  first only in the messages with that id: their content is the edited text that was
  submitted, their status is \<open>ready\<close>, and their error is cleared.
\<close>

theorem save_edit_keeps_submitted_text:
  assumes "find (\<lambda>message. msg_id message = messageId) (messages s) = Some target"
    and "turnId target = Some tid" and "tid \<noteq> []"
    and "ok r"
    and "\<not> is_json r \<or> (\<exists>e. json_result r = Inl e) \<or>
         (\<exists>data. json_result r = Inr data \<and>
            (\<forall>t. get_property data ''response'' \<noteq> Some (JStr t)))"
  shows "snd (handleSaveEdit (messages s) messageId edited (FetchResolves r)) = Inr () \<and>
         run (fst (handleSaveEdit (messages s) messageId edited (FetchResolves r))) s =
           s\<lparr>messages :=
               map (\<lambda>message.
                      if msg_id message = messageId
                      then message\<lparr>content := edited, status := Some Ready, error := None\<rparr>
                      else message)
                 (messages s)\<rparr>"
proof -
  have se: "snd (save_edit edited (FetchResolves r)) = Inr edited"
    using assms(4,5) by (rule save_edit_kept)
  note hs = handleSaveEdit_sent [OF assms(1-3), of edited "FetchResolves r"]
  have res: "snd (handleSaveEdit (messages s) messageId edited (FetchResolves r)) = Inr ()"
    unfolding hs using se by simp
  have st: "run (fst (handleSaveEdit (messages s) messageId edited (FetchResolves r))) s =
           s\<lparr>messages :=
               map (\<lambda>message.
                      if msg_id message = messageId
                      then message\<lparr>content := edited, status := Some Ready, error := None\<rparr>
                      else message)
                 (messages s)\<rparr>"
    unfolding hs using se
    by (simp add: run_append run_save_edit markMessage_def spread_status
        spread_content_status_error)
  from res st show ?thesis by simp
qed

theorem save_edit_keeps_submitted_text_witness:
  "find (\<lambda>message. msg_id message = ''bot-1'') (messages state_ab) = Some message_b \<and>
   turnId message_b = Some ''t1'' \<and>
   ok (response_200\<lparr>content_type := Some ''application/json''\<rparr>) \<and>
   is_json (response_200\<lparr>content_type := Some ''application/json''\<rparr>) \<and>
   json_result (response_200\<lparr>content_type := Some ''application/json''\<rparr>)
     = Inl (ErrorObject ''Unexpected end of JSON input'') \<and>
   snd (handleSaveEdit (messages state_ab) ''bot-1'' ''edited''
          (FetchResolves (response_200\<lparr>content_type := Some ''application/json''\<rparr>)))
     = Inr () \<and>
   messages (run (fst (handleSaveEdit (messages state_ab) ''bot-1'' ''edited''
                         (FetchResolves (response_200\<lparr>content_type := Some ''application/json''\<rparr>))))
               state_ab)
     = [message_a, message_b\<lparr>content := ''edited'', status := Some Ready, error := None\<rparr>]"
proof -
  have h1: "find (\<lambda>message. msg_id message = ''bot-1'') (messages state_ab) = Some message_b"
    by (simp add: state_ab_def message_a_def message_b_def)
  have h2: "turnId message_b = Some ''t1''"
    by (simp add: message_b_def)
  have h3: "''t1'' \<noteq> []"
    by simp
  have h4: "ok (response_200\<lparr>content_type := Some ''application/json''\<rparr>)"
    by (simp add: ok_def response_200_def)
  have j: "json_result (response_200\<lparr>content_type := Some ''application/json''\<rparr>)
             = Inl (ErrorObject ''Unexpected end of JSON input'')"
    by (simp add: response_200_def)
  have h5: "\<not> is_json (response_200\<lparr>content_type := Some ''application/json''\<rparr>) \<or>
            (\<exists>e. json_result (response_200\<lparr>content_type := Some ''application/json''\<rparr>) = Inl e) \<or>
            (\<exists>data. json_result (response_200\<lparr>content_type := Some ''application/json''\<rparr>)
                       = Inr data \<and>
               (\<forall>t. get_property data ''response'' \<noteq> Some (JStr t)))"
    using j by simp
  have ij: "is_json (response_200\<lparr>content_type := Some ''application/json''\<rparr>)"
    by (simp add: is_json_def)
  note fact = save_edit_keeps_submitted_text [OF h1 h2 h3 h4 h5, of "''edited''"]
  have r1: "snd (handleSaveEdit (messages state_ab) ''bot-1'' ''edited''
          (FetchResolves (response_200\<lparr>content_type := Some ''application/json''\<rparr>)))
     = Inr ()"
    using fact [THEN conjunct1] .
  have r2: "messages (run (fst (handleSaveEdit (messages state_ab) ''bot-1'' ''edited''
                         (FetchResolves (response_200\<lparr>content_type := Some ''application/json''\<rparr>))))
               state_ab)
     = [message_a, message_b\<lparr>content := ''edited'', status := Some Ready, error := None\<rparr>]"
    using fact [THEN conjunct2]
    by (simp add: state_ab_def message_a_def message_b_def)
  from h1 h2 h4 ij j r1 r2 show ?thesis by blast
qed

section \<open>Properties of handleSend\<close>

lemma read_stream_effects:
  "fst (read_stream bid d agg chunks ending) =
     map (\<lambda>k. streaming_patch bid (agg @ concat (take (Suc k) (fst (decode_chunks d chunks)))))
       [0..<length chunks]"
proof (induction chunks arbitrary: d agg)
  case Nil
  then show ?case by (cases ending) simp_all
next
  case (Cons v rest)
  obtain t d' where dv: "decode_stream d v = (t, d')" by (cases "decode_stream d v")
  have "fst (read_stream bid d agg (v # rest) ending) =
          streaming_patch bid (agg @ t) # fst (read_stream bid d' (agg @ t) rest ending)"
    by (simp add: dv streaming_patch_def Let_def split: prod.splits)
  also have "fst (read_stream bid d' (agg @ t) rest ending) =
     map (\<lambda>k. streaming_patch bid ((agg @ t) @ concat (take (Suc k) (fst (decode_chunks d' rest)))))
       [0..<length rest]"
    by (rule Cons.IH)
  also have "streaming_patch bid (agg @ t) # \<dots> =
     map (\<lambda>k. streaming_patch bid (agg @ concat (take (Suc k) (fst (decode_chunks d (v # rest))))))
       [0..<length (v # rest)]"
    by (simp add: dv upt_rec [of 0 "Suc (length rest)"] map_Suc_upt [symmetric] del: upt_Suc
        split: prod.splits)
  finally show ?case .
qed

lemma read_stream_done:
  "snd (read_stream bid d agg chunks Done) =
     Inr (agg @ concat (fst (decode_chunks d chunks)) @ decode_end (snd (decode_chunks d chunks)))"
  by (induction chunks arbitrary: d agg) (simp_all add: Let_def case_prod_beta)

lemma read_stream_rejects:
  "snd (read_stream bid d agg chunks (ReadRejects e)) = Inl e"
  by (induction chunks arbitrary: d agg) (simp_all add: Let_def case_prod_beta)


lemma trace_append: "trace (xs @ ys) s = trace xs s @ tl (trace ys (run xs s))"
  by (induction xs arbitrary: s) (simp_all, case_tac ys, simp_all)

lemma last_markMessage:
  "prev \<noteq> [] \<Longrightarrow>
   last (markMessage i changes prev) =
     (if msg_id (last prev) = i then spread (last prev) changes else last prev)"
  by (simp add: markMessage_def last_map)

lemma markMessage_eq_Nil [simp]: "markMessage i changes prev = [] \<longleftrightarrow> prev = []"
  by (simp add: markMessage_def)

lemma spread_streaming:
  "spread m (no_changes\<lparr>c_content := Some a, c_status := Some st\<rparr>) = m\<lparr>content := a, status := st\<rparr>"
  by (simp add: spread_def no_changes_def)

lemma apply_streaming_patch:
  assumes "messages s \<noteq> []" and "msg_id (last (messages s)) = bid"
  shows "messages (apply_effect (streaming_patch bid a) s) \<noteq> [] \<and>
         last (messages (apply_effect (streaming_patch bid a) s)) =
           (last (messages s))\<lparr>content := a, status := Some Streaming\<rparr> \<and>
         isGenerating (apply_effect (streaming_patch bid a) s) = isGenerating s \<and>
         errorMessage (apply_effect (streaming_patch bid a) s) = errorMessage s"
  using assms by (simp add: streaming_patch_def last_markMessage spread_streaming)

lemma map_trace:
  "map f (trace es s) = f s # map f (tl (trace es s))"
  by (cases es) simp_all

lemma trace_streaming:
  assumes "messages s \<noteq> []" and "msg_id (last (messages s)) = bid"
  shows "map (\<lambda>t. last (messages t)) (tl (trace (map (streaming_patch bid) as) s)) =
           map (\<lambda>a. (last (messages s))\<lparr>content := a, status := Some Streaming\<rparr>) as"
  using assms
proof (induction as arbitrary: s)
  case Nil
  then show ?case by simp
next
  case (Cons a as)
  let ?s' = "apply_effect (streaming_patch bid a) s"
  note step = apply_streaming_patch [OF Cons.prems, of a]
  have ne: "messages ?s' \<noteq> []"
    and lst: "last (messages ?s') = (last (messages s))\<lparr>content := a, status := Some Streaming\<rparr>"
    using step by simp_all
  have idn: "msg_id (last (messages ?s')) = bid"
    using lst Cons.prems(2) by simp
  have "map (\<lambda>t. last (messages t)) (tl (trace (map (streaming_patch bid) (a # as)) s)) =
        map (\<lambda>t. last (messages t)) (trace (map (streaming_patch bid) as) ?s')"
    by simp
  also have "\<dots> = last (messages ?s') #
        map (\<lambda>t. last (messages t)) (tl (trace (map (streaming_patch bid) as) ?s'))"
    by (rule map_trace)
  also have "\<dots> = last (messages ?s') #
        map (\<lambda>a'. (last (messages ?s'))\<lparr>content := a', status := Some Streaming\<rparr>) as"
    using Cons.IH [OF ne idn] by simp
  finally show ?case using lst by simp
qed

lemma run_streaming:
  assumes "messages s \<noteq> []" and "msg_id (last (messages s)) = bid"
  shows "messages (run (map (streaming_patch bid) as) s) \<noteq> [] \<and>
         msg_id (last (messages (run (map (streaming_patch bid) as) s))) = bid \<and>
         role (last (messages (run (map (streaming_patch bid) as) s))) = role (last (messages s)) \<and>
         turnId (last (messages (run (map (streaming_patch bid) as) s))) = turnId (last (messages s)) \<and>
         error (last (messages (run (map (streaming_patch bid) as) s))) = error (last (messages s)) \<and>
         isGenerating (run (map (streaming_patch bid) as) s) = isGenerating s \<and>
         errorMessage (run (map (streaming_patch bid) as) s) = errorMessage s"
  using assms
proof (induction as arbitrary: s)
  case Nil
  then show ?case by simp
next
  case (Cons a as)
  let ?s' = "apply_effect (streaming_patch bid a) s"
  note step = apply_streaming_patch [OF Cons.prems, of a]
  have ne: "messages ?s' \<noteq> []"
    and lst: "last (messages ?s') = (last (messages s))\<lparr>content := a, status := Some Streaming\<rparr>"
    using step by simp_all
  have idn: "msg_id (last (messages ?s')) = bid"
    using lst Cons.prems(2) by simp
  from Cons.IH [OF ne idn] step lst show ?case by simp
qed


lemma generate_effects:
  "fst (generate bid outcome) = map (streaming_patch bid) (streamed outcome)"
proof (cases outcome)
  case (FetchRejects e)
  then show ?thesis by (simp add: generate_def streamed_def)
next
  case (FetchResolves r)
  show ?thesis
  proof (cases "ok r \<and> \<not> is_json r")
    case False
    then show ?thesis using FetchResolves
      by (auto simp: generate_def streamed_def Let_def split: sum.splits)
  next
    case True
    show ?thesis
    proof (cases "body r")
      case None
      then show ?thesis using True FetchResolves
        by (simp add: generate_def streamed_def Let_def split: sum.splits)
    next
      case (Some st)
      obtain chunks ending where st: "st = (chunks, ending)" by (cases st)
      have "fst (generate bid outcome) = fst (read_stream bid new_TextDecoder [] chunks ending)"
        using True FetchResolves Some st
        by (simp add: generate_def Let_def split: sum.splits prod.splits)
      also have "\<dots> = map (streaming_patch bid) (aggregates chunks)"
        by (simp add: read_stream_effects aggregates_def comp_def)
      finally show ?thesis using True FetchResolves Some st by (simp add: streamed_def)
    qed
  qed
qed

lemma handleSend_unfold:
  "handleSend u b p outcome =
     [AppendMessages
        [\<lparr>msg_id = createId ''user'' u, role = User, content = p,
          turnId = None, status = Some Ready, error = None\<rparr>, new_botMessage b],
      SetIsGenerating True, SetErrorMessage None,
      Fetch ''/generate_response'' (JSON_stringify (JObj [(''prompt'', JStr p)]))]
     @ fst (generate (createId ''bot'' b) outcome)
     @ final_effects (createId ''bot'' b) (snd (generate (createId ''bot'' b) outcome))
     @ [SetIsGenerating False]"
  by (simp add: handleSend_def new_botMessage_def final_effects_def Let_def case_prod_beta)

lemma after_append:
  "messages (run [AppendMessages [m, new_botMessage b], SetIsGenerating True, SetErrorMessage None, Fetch url bd] s) \<noteq> [] \<and>
   last (messages (run [AppendMessages [m, new_botMessage b], SetIsGenerating True, SetErrorMessage None, Fetch url bd] s)) = new_botMessage b \<and>
   map (\<lambda>t. last (messages t)) (tl (trace [AppendMessages [m, new_botMessage b], SetIsGenerating True, SetErrorMessage None, Fetch url bd] s)) = replicate 4 (new_botMessage b)"
  by (simp add: append_messages_def numeral_eq_Suc)

lemma spread_ready:
  "spread m (no_changes\<lparr>c_content := Some fc, c_status := Some st, c_turnId := Some tid, c_error := Some e\<rparr>)
   = \<lparr>msg_id = msg_id m, role = role m, content = fc, turnId = tid, status = st, error = e\<rparr>"
  by (simp add: spread_def no_changes_def)

lemma spread_failed:
  "spread m (no_changes\<lparr>c_content := Some fc, c_status := Some st, c_error := Some e\<rparr>)
   = \<lparr>msg_id = msg_id m, role = role m, content = fc, turnId = turnId m, status = st, error = e\<rparr>"
  by (simp add: spread_def no_changes_def)

lemma final_trace:
  assumes "messages s \<noteq> []" and "msg_id (last (messages s)) = bid"
  shows "map (\<lambda>t. last (messages t)) (tl (trace (final_effects bid result @ [SetIsGenerating False]) s)) =
    (case result of
       Inr (fc, tid) \<Rightarrow>
         replicate 2 \<lparr>msg_id = bid, role = role (last (messages s)), content = fc, turnId = tid, status = Some Ready, error = None\<rparr>
     | Inl e \<Rightarrow>
         replicate 3 \<lparr>msg_id = bid, role = role (last (messages s)), content = [], turnId = turnId (last (messages s)),
            status = Some StatusError, error = Some (message_or e ''Unexpected error'')\<rparr>)"
  using assms
  by (cases result)
     (auto simp: final_effects_def last_markMessage spread_ready spread_failed numeral_eq_Suc Let_def)

lemma final_run:
  assumes "messages s \<noteq> []" and "msg_id (last (messages s)) = bid"
  shows "isGenerating (run (final_effects bid result @ [SetIsGenerating False]) s) = False \<and>
         errorMessage (run (final_effects bid result @ [SetIsGenerating False]) s) =
           (case result of Inr x \<Rightarrow> errorMessage s | Inl e \<Rightarrow> Some (message_or e ''Unexpected error'')) \<and>
         last (messages (run (final_effects bid result @ [SetIsGenerating False]) s)) =
    (case result of
       Inr (fc, tid) \<Rightarrow>
         \<lparr>msg_id = bid, role = role (last (messages s)), content = fc, turnId = tid, status = Some Ready, error = None\<rparr>
     | Inl e \<Rightarrow>
         \<lparr>msg_id = bid, role = role (last (messages s)), content = [], turnId = turnId (last (messages s)),
            status = Some StatusError, error = Some (message_or e ''Unexpected error'')\<rparr>)"
  using assms
  by (cases result)
     (auto simp: final_effects_def last_markMessage spread_ready spread_failed Let_def)


lemma trace_not_Nil [simp]: "trace es s \<noteq> []"
  by (cases es) simp_all

lemma trace_tl_append:
  "tl (trace (xs @ ys) s) = tl (trace xs s) @ tl (trace ys (run xs s))"
  by (simp add: trace_append)

lemma new_botMessage_streaming:
  "(new_botMessage b)\<lparr>content := a, status := Some Streaming\<rparr> = (new_botMessage b)\<lparr>content := a\<rparr>"
  by (simp add: new_botMessage_def)

lemma handleSend_bot_trace:
  "map (\<lambda>t. last (messages t)) (tl (trace (handleSend u b p outcome) s)) =
     replicate 4 (new_botMessage b) @
     map (\<lambda>a. (new_botMessage b)\<lparr>content := a\<rparr>) (streamed outcome) @
     (case snd (generate (createId ''bot'' b) outcome) of
        Inr (fc, tid) \<Rightarrow>
          replicate 2 ((new_botMessage b)\<lparr>content := fc, turnId := tid, status := Some Ready, error := None\<rparr>)
      | Inl e \<Rightarrow>
          replicate 3 ((new_botMessage b)\<lparr>content := [], status := Some StatusError,
                         error := Some (message_or e ''Unexpected error'')\<rparr>))"
proof -
  let ?bid = "createId ''bot'' b"
  let ?pre = "[AppendMessages
        [\<lparr>msg_id = createId ''user'' u, role = User, content = p,
          turnId = None, status = Some Ready, error = None\<rparr>, new_botMessage b],
      SetIsGenerating True, SetErrorMessage None,
      Fetch ''/generate_response'' (JSON_stringify (JObj [(''prompt'', JStr p)]))]"
  let ?mid = "map (streaming_patch ?bid) (streamed outcome)"
  let ?fin = "final_effects ?bid (snd (generate ?bid outcome)) @ [SetIsGenerating False]"
  let ?s1 = "run ?pre s"
  let ?s2 = "run ?mid ?s1"
  let ?f = "\<lambda>t. last (messages t)"
  have hs: "handleSend u b p outcome = ?pre @ ?mid @ ?fin"
    by (simp add: handleSend_unfold generate_effects)
  note pre = after_append [of _ b _ _ s]
  have ne1: "messages ?s1 \<noteq> []" and l1: "last (messages ?s1) = new_botMessage b"
    using pre by blast+
  have id1: "msg_id (last (messages ?s1)) = ?bid"
    using l1 by (simp add: new_botMessage_def)
  note mid = run_streaming [OF ne1 id1, of "streamed outcome"]
  have ne2: "messages ?s2 \<noteq> []" and id2: "msg_id (last (messages ?s2)) = ?bid"
    and ro2: "role (last (messages ?s2)) = Bot" and tu2: "turnId (last (messages ?s2)) = None"
    using mid l1 by (simp_all add: new_botMessage_def)
  have t1: "map ?f (tl (trace ?pre s)) = replicate 4 (new_botMessage b)"
    using pre by blast
  have t2: "map ?f (tl (trace ?mid ?s1)) =
              map (\<lambda>a. (new_botMessage b)\<lparr>content := a\<rparr>) (streamed outcome)"
    using trace_streaming [OF ne1 id1, of "streamed outcome"] l1
    by (simp add: new_botMessage_streaming)
  have t3: "map ?f (tl (trace ?fin ?s2)) =
     (case snd (generate ?bid outcome) of
        Inr (fc, tid) \<Rightarrow>
          replicate 2 ((new_botMessage b)\<lparr>content := fc, turnId := tid, status := Some Ready, error := None\<rparr>)
      | Inl e \<Rightarrow>
          replicate 3 ((new_botMessage b)\<lparr>content := [], status := Some StatusError,
                         error := Some (message_or e ''Unexpected error'')\<rparr>))"
    unfolding final_trace [OF ne2 id2] ro2 tu2
    by (simp add: new_botMessage_def split: sum.splits)
  have "map ?f (tl (trace (handleSend u b p outcome) s)) =
          map ?f (tl (trace ?pre s)) @ map ?f (tl (trace ?mid ?s1)) @ map ?f (tl (trace ?fin ?s2))"
    unfolding hs trace_tl_append run_append map_append ..
  then show ?thesis unfolding t1 t2 t3 .
qed

lemma handleSend_final:
  "isGenerating (run (handleSend u b p outcome) s) = False \<and>
   errorMessage (run (handleSend u b p outcome) s) =
     (case snd (generate (createId ''bot'' b) outcome) of
        Inr x \<Rightarrow> None | Inl e \<Rightarrow> Some (message_or e ''Unexpected error'')) \<and>
   last (messages (run (handleSend u b p outcome) s)) =
     (case snd (generate (createId ''bot'' b) outcome) of
        Inr (fc, tid) \<Rightarrow>
          (new_botMessage b)\<lparr>content := fc, turnId := tid, status := Some Ready, error := None\<rparr>
      | Inl e \<Rightarrow>
          (new_botMessage b)\<lparr>content := [], status := Some StatusError,
             error := Some (message_or e ''Unexpected error'')\<rparr>)"
proof -
  let ?bid = "createId ''bot'' b"
  let ?pre = "[AppendMessages
        [\<lparr>msg_id = createId ''user'' u, role = User, content = p,
          turnId = None, status = Some Ready, error = None\<rparr>, new_botMessage b],
      SetIsGenerating True, SetErrorMessage None,
      Fetch ''/generate_response'' (JSON_stringify (JObj [(''prompt'', JStr p)]))]"
  let ?mid = "map (streaming_patch ?bid) (streamed outcome)"
  let ?fin = "final_effects ?bid (snd (generate ?bid outcome)) @ [SetIsGenerating False]"
  let ?s1 = "run ?pre s"
  let ?s2 = "run ?mid ?s1"
  have hs: "handleSend u b p outcome = ?pre @ ?mid @ ?fin"
    by (simp add: handleSend_unfold generate_effects)
  have r: "run (handleSend u b p outcome) s = run ?fin ?s2"
    unfolding hs run_append ..
  note pre = after_append [of _ b _ _ s]
  have ne1: "messages ?s1 \<noteq> []" and l1: "last (messages ?s1) = new_botMessage b"
    using pre by blast+
  have e1: "errorMessage ?s1 = None"
    by simp
  have id1: "msg_id (last (messages ?s1)) = ?bid"
    using l1 by (simp add: new_botMessage_def)
  note mid = run_streaming [OF ne1 id1, of "streamed outcome"]
  have ne2: "messages ?s2 \<noteq> []" and id2: "msg_id (last (messages ?s2)) = ?bid"
    and ro2: "role (last (messages ?s2)) = Bot" and tu2: "turnId (last (messages ?s2)) = None"
    using mid l1 by (simp_all add: new_botMessage_def)
  have e2: "errorMessage ?s2 = None"
    using mid e1 by simp
  show ?thesis
    unfolding r using final_run [OF ne2 id2, of "snd (generate ?bid outcome)"] ro2 tu2 e2
    by (simp add: new_botMessage_def split: sum.splits)
qed

lemma generate_json:
  assumes "ok r" and "is_json r" and "json_result r = Inr data"
  shows "snd (generate bid (FetchResolves r)) =
           Inr ((case get_property data ''response'' of
                   Some (JStr t) \<Rightarrow> t
                 | _ \<Rightarrow> JSON_stringify data),
                (case get_property data ''turn_id'' of
                   Some v \<Rightarrow>
                     if \<not> truthy_string (x_turn_id r) \<and> truthy (Some v)
                     then Some (String_of v) else x_turn_id r
                 | None \<Rightarrow> x_turn_id r))"
  using assms by (simp add: generate_def Let_def)

lemma generate_body:
  assumes "ok r" and "\<not> is_json r" and "body r = Some (chunks, ending)"
  shows "snd (generate bid (FetchResolves r)) =
           (case snd (read_stream bid new_TextDecoder [] chunks ending) of
              Inl e \<Rightarrow> Inl e
            | Inr finalContent \<Rightarrow> Inr (finalContent, x_turn_id r))"
proof -
  obtain effects result where rs: "read_stream bid new_TextDecoder [] chunks ending = (effects, result)"
    by (cases "read_stream bid new_TextDecoder [] chunks ending")
  show ?thesis using assms
    by (cases result) (simp_all add: generate_def Let_def rs)
qed

lemma generate_stream:
  assumes "ok r" and "\<not> is_json r" and "body r = Some (chunks, Done)"
  shows "snd (generate bid (FetchResolves r)) = Inr (stream_text chunks, x_turn_id r)"
  unfolding generate_body [OF assms] read_stream_done stream_text_def by simp

lemma generate_text:
  assumes "ok r" and "\<not> is_json r" and "body r = None" and "text_result r = Inr t"
  shows "snd (generate bid (FetchResolves r)) = Inr (t, x_turn_id r)"
  using assms by (simp add: generate_def Let_def)

lemma generate_fails:
  assumes "outcome = FetchRejects e \<or>
           (\<exists>r. outcome = FetchResolves r \<and>
              (\<not> ok r \<and>
                 e = ErrorObject (''Unable to generate response ('' @ show_nat (resp_status r) @ '')'') \<or>
               ok r \<and> is_json r \<and> json_result r = Inl e \<or>
               ok r \<and> \<not> is_json r \<and> (\<exists>chunks. body r = Some (chunks, ReadRejects e)) \<or>
               ok r \<and> \<not> is_json r \<and> body r = None \<and> text_result r = Inl e))"
  shows "snd (generate bid outcome) = Inl e"
proof -
  have "snd (generate bid (FetchResolves r)) = Inl e"
    if "ok r" "\<not> is_json r" "body r = Some (chunks, ReadRejects e)" for r chunks
    unfolding generate_body [OF that] read_stream_rejects by simp
  with assms show ?thesis
    by (auto simp: generate_def Let_def)
qed

lemma streamed_simps:
  "ok r \<Longrightarrow> is_json r \<Longrightarrow> streamed (FetchResolves r) = []"
  "ok r \<Longrightarrow> \<not> is_json r \<Longrightarrow> body r = Some (chunks, ending) \<Longrightarrow> streamed (FetchResolves r) = aggregates chunks"
  "ok r \<Longrightarrow> \<not> is_json r \<Longrightarrow> body r = None \<Longrightarrow> streamed (FetchResolves r) = []"
  by (simp_all add: streamed_def)

lemma aggregate_prefix:
  "a \<in> set (aggregates chunks) \<Longrightarrow> prefix a (stream_text chunks)"
proof -
  assume "a \<in> set (aggregates chunks)"
  then obtain k where a: "a = concat (take (Suc k) (fst (decode_chunks new_TextDecoder chunks)))"
    by (auto simp: aggregates_def)
  let ?ps = "fst (decode_chunks new_TextDecoder chunks)"
  have "concat ?ps = concat (take (Suc k) ?ps) @ concat (drop (Suc k) ?ps)"
    by (metis append_take_drop_id concat_append)
  then show ?thesis unfolding a stream_text_def
    by (metis append.assoc prefixI)
qed

lemma decode_He_llo:
  "aggregates [''He'', ''llo''] = [''He'', ''Hello'']" "stream_text [''He'', ''llo''] = ''Hello''"
  by (simp_all add: aggregates_def stream_text_def decode_stream_def decode_byte_def lead_byte_def new_TextDecoder_def decode_end_def byte_order_mark_def Let_def upt_rec)


text \<open>
  Claim C4. Let the request of \<open>handleSend\<close> fail with the thrown value \<open>e\<close>:
  \<open>fetch\<close> rejects with \<open>e\<close>; or the status is outside 200 to 299, for which \<open>e\<close> is
  the error \<open>Unable to generate response (status)\<close>; or \<open>response.json()\<close>, a read of
  the stream or \<open>response.text()\<close> throws \<open>e\<close>. Then the bot message of the send ends
  with status \<open>error\<close>, empty content, no \<open>turnId\<close>, and as \<open>error\<close> the message of
  \<open>e\<close> (\<open>Unexpected error\<close> when \<open>e\<close> is not an Error); the page-level
  \<open>errorMessage\<close> is the same text; and for a status outside 200 to 299 the text
  includes the status code.
\<close>

theorem failed_generation:
  assumes "outcome = FetchRejects e \<or>
           (\<exists>r. outcome = FetchResolves r \<and>
              (\<not> ok r \<and>
                 e = ErrorObject (''Unable to generate response ('' @ show_nat (resp_status r) @ '')'') \<or>
               ok r \<and> is_json r \<and> json_result r = Inl e \<or>
               ok r \<and> \<not> is_json r \<and> (\<exists>chunks. body r = Some (chunks, ReadRejects e)) \<or>
               ok r \<and> \<not> is_json r \<and> body r = None \<and> text_result r = Inl e))"
  shows "last (messages (run (handleSend u b p outcome) s)) =
           \<lparr>msg_id = createId ''bot'' b, role = Bot, content = [], turnId = None,
            status = Some StatusError, error = Some (message_or e ''Unexpected error'')\<rparr> \<and>
         errorMessage (run (handleSend u b p outcome) s) = Some (message_or e ''Unexpected error'') \<and>
         (\<forall>r. outcome = FetchResolves r \<and> \<not> ok r \<longrightarrow>
            string_includes (message_or e ''Unexpected error'') (show_nat (resp_status r)))"
proof -
  have g: "snd (generate (createId ''bot'' b) outcome) = Inl e"
    using assms by (rule generate_fails)
  have inc: "\<forall>r. outcome = FetchResolves r \<and> \<not> ok r \<longrightarrow>
            string_includes (message_or e ''Unexpected error'') (show_nat (resp_status r))"
    using assms string_includes_mid [of "''Unable to generate response (''" _ "'')''"] by auto
  from handleSend_final [of u b p outcome s] g inc show ?thesis
    by (simp add: new_botMessage_def)
qed

theorem failed_generation_witness:
  "\<not> ok (response_200\<lparr>resp_status := 500\<rparr>) \<and>
   last (messages (run (handleSend ''u1'' ''b1'' ''hello''
                          (FetchResolves (response_200\<lparr>resp_status := 500\<rparr>))) state_ab)) =
     \<lparr>msg_id = ''bot-b1'', role = Bot, content = [], turnId = None,
      status = Some StatusError, error = Some ''Unable to generate response (500)''\<rparr> \<and>
   errorMessage (run (handleSend ''u1'' ''b1'' ''hello''
                        (FetchResolves (response_200\<lparr>resp_status := 500\<rparr>))) state_ab) =
     Some ''Unable to generate response (500)'' \<and>
   string_includes ''Unable to generate response (500)'' ''500''"
proof -
  have n: "show_nat 500 = ''500''"
    by (simp add: show_nat.simps)
  have r0: "\<not> ok (response_200\<lparr>resp_status := 500\<rparr>)"
    by (simp add: ok_def)
  have h: "FetchResolves (response_200\<lparr>resp_status := 500\<rparr>) =
             FetchRejects (ErrorObject ''Unable to generate response (500)'') \<or>
           (\<exists>r. FetchResolves (response_200\<lparr>resp_status := 500\<rparr>) = FetchResolves r \<and>
              (\<not> ok r \<and>
                 ErrorObject ''Unable to generate response (500)'' =
                   ErrorObject (''Unable to generate response ('' @ show_nat (resp_status r) @ '')'') \<or>
               ok r \<and> is_json r \<and>
                 json_result r = Inl (ErrorObject ''Unable to generate response (500)'') \<or>
               ok r \<and> \<not> is_json r \<and>
                 (\<exists>chunks. body r =
                    Some (chunks, ReadRejects (ErrorObject ''Unable to generate response (500)''))) \<or>
               ok r \<and> \<not> is_json r \<and> body r = None \<and>
                 text_result r = Inl (ErrorObject ''Unable to generate response (500)'')))"
    using r0 by (simp add: n)
  note fact = failed_generation [OF h, of "''u1''" "''b1''" "''hello''" state_ab]
  have r1: "last (messages (run (handleSend ''u1'' ''b1'' ''hello''
                          (FetchResolves (response_200\<lparr>resp_status := 500\<rparr>))) state_ab)) =
     \<lparr>msg_id = ''bot-b1'', role = Bot, content = [], turnId = None,
      status = Some StatusError, error = Some ''Unable to generate response (500)''\<rparr>"
    using fact [THEN conjunct1] by (simp add: createId_def)
  have r2: "errorMessage (run (handleSend ''u1'' ''b1'' ''hello''
                        (FetchResolves (response_200\<lparr>resp_status := 500\<rparr>))) state_ab) =
     Some ''Unable to generate response (500)''"
    using fact [THEN conjunct2, THEN conjunct1] by simp
  have r3: "string_includes ''Unable to generate response (500)'' ''500''"
    using fact [THEN conjunct2, THEN conjunct2] r0 n by simp
  from r0 r1 r2 r3 show ?thesis by blast
qed

text \<open>
  Claim C2. Let the response have a status from 200 to 299, a content type that includes
  \<open>application/json\<close>, and the parsed body \<open>{ "response": "hi", "turn_id": "t1" }\<close>,
  and let it carry no \<open>x-turn-id\<close> header (or an empty one). Then, whatever the state
  before, the prompt and the ids, the bot message of the send ends as
  \<open>{status: ready, content: "hi", turnId: "t1", error: undefined}\<close>.
\<close>

theorem json_reply_example:
  assumes "ok r" and "is_json r"
    and "json_result r = Inr (JObj [(''response'', JStr ''hi''), (''turn_id'', JStr ''t1'')])"
    and "\<not> truthy_string (x_turn_id r)"
  shows "last (messages (run (handleSend u b p (FetchResolves r)) s)) =
           \<lparr>msg_id = createId ''bot'' b, role = Bot, content = ''hi'', turnId = Some ''t1'',
            status = Some Ready, error = None\<rparr>"
  using handleSend_final [of u b p "FetchResolves r" s] generate_json [OF assms(1-3), of "createId ''bot'' b"] assms(4)
  by (simp add: new_botMessage_def)

theorem json_reply_example_witness:
  "ok response_hi \<and> is_json response_hi \<and>
   json_result response_hi = Inr (JObj [(''response'', JStr ''hi''), (''turn_id'', JStr ''t1'')]) \<and>
   \<not> truthy_string (x_turn_id response_hi) \<and>
   last (messages (run (handleSend ''u1'' ''b1'' ''hello'' (FetchResolves response_hi)) state_ab)) =
     \<lparr>msg_id = ''bot-b1'', role = Bot, content = ''hi'', turnId = Some ''t1'',
      status = Some Ready, error = None\<rparr>"
proof -
  have h1: "ok response_hi"
    by (simp add: ok_def response_hi_def)
  have h2: "is_json response_hi"
    by (simp add: is_json_def response_hi_def)
  have h3: "json_result response_hi =
              Inr (JObj [(''response'', JStr ''hi''), (''turn_id'', JStr ''t1'')])"
    by (simp add: response_hi_def data_hi_def)
  have h4: "\<not> truthy_string (x_turn_id response_hi)"
    by (simp add: response_hi_def)
  have r: "last (messages (run (handleSend ''u1'' ''b1'' ''hello'' (FetchResolves response_hi))
                            state_ab)) =
     \<lparr>msg_id = ''bot-b1'', role = Bot, content = ''hi'', turnId = Some ''t1'',
      status = Some Ready, error = None\<rparr>"
    using json_reply_example [OF h1 h2 h3 h4, of "''u1''" "''b1''" "''hello''" state_ab]
    by (simp add: createId_def)
  from h1 h2 h3 h4 r show ?thesis by blast
qed

text \<open>
  Claim C3, as the code has it. A response with an \<open>x-turn-id\<close> header that is there but
  empty and a JSON body with \<open>turn_id: "t1"\<close> gives the bot message the \<open>turnId\<close>
  \<open>t1\<close>, not the value of the header: the test \<open>!turnId\<close> takes an empty header for
  a missing one.
\<close>

theorem turnId_header_counterexample:
  "ok (response_hi\<lparr>x_turn_id := Some []\<rparr>) \<and>
   is_json (response_hi\<lparr>x_turn_id := Some []\<rparr>) \<and>
   x_turn_id (response_hi\<lparr>x_turn_id := Some []\<rparr>) = Some [] \<and>
   json_result (response_hi\<lparr>x_turn_id := Some []\<rparr>) = Inr data_hi \<and>
   get_property data_hi ''turn_id'' = Some (JStr ''t1'') \<and>
   turnId (last (messages (run (handleSend ''u1'' ''b1'' ''hello''
                                  (FetchResolves (response_hi\<lparr>x_turn_id := Some []\<rparr>)))
                             state_ab))) = Some ''t1'' \<and>
   turnId (last (messages (run (handleSend ''u1'' ''b1'' ''hello''
                                  (FetchResolves (response_hi\<lparr>x_turn_id := Some []\<rparr>)))
                             state_ab))) \<noteq> x_turn_id (response_hi\<lparr>x_turn_id := Some []\<rparr>)"
proof -
  let ?r = "response_hi\<lparr>x_turn_id := Some []\<rparr>"
  have h1: "ok ?r"
    by (simp add: ok_def response_hi_def)
  have h2: "is_json ?r"
    by (simp add: is_json_def response_hi_def)
  have h3: "json_result ?r = Inr data_hi"
    by (simp add: response_hi_def)
  have h4: "get_property data_hi ''turn_id'' = Some (JStr ''t1'')"
    by (simp add: data_hi_def)
  have g: "snd (generate (createId ''bot'' ''b1'') (FetchResolves ?r)) = Inr (''hi'', Some ''t1'')"
    unfolding generate_json [OF h1 h2 h3] by (simp add: data_hi_def)
  have r: "turnId (last (messages (run (handleSend ''u1'' ''b1'' ''hello'' (FetchResolves ?r))
                                     state_ab))) = Some ''t1''"
    using handleSend_final [of "''u1''" "''b1''" "''hello''" "FetchResolves ?r" state_ab] g
    by simp
  from h1 h2 h3 h4 r show ?thesis by simp
qed

text \<open>
  Claim C3, amended. For a response with a status from 200 to 299 whose body is read
  without an exception, the \<open>turnId\<close> of the bot message is the value of the
  \<open>x-turn-id\<close> header whenever that header is there and not empty. The \<open>turn_id\<close> of the
  JSON body, turned into a string, is used only when the header is missing or empty, the
  content type is JSON and the field is truthy. In every other case \<open>turnId\<close> is what the
  header lookup gave: \<open>undefined\<close> for a missing header, the empty string for an empty
  one.
\<close>

theorem turnId_precedence:
  assumes "ok r"
    and "is_json r \<longrightarrow> json_result r = Inr data"
    and "\<not> is_json r \<longrightarrow>
           (\<exists>chunks. body r = Some (chunks, Done)) \<or> (body r = None \<and> (\<exists>t. text_result r = Inr t))"
  shows "turnId (last (messages (run (handleSend u b p (FetchResolves r)) s))) =
           (if truthy_string (x_turn_id r) then x_turn_id r
            else case (if is_json r then get_property data ''turn_id'' else None) of
                   Some v \<Rightarrow> if truthy (Some v) then Some (String_of v) else x_turn_id r
                 | None \<Rightarrow> x_turn_id r)"
proof (cases "is_json r")
  case True
  with assms have j: "json_result r = Inr data" by simp
  show ?thesis
    using handleSend_final [of u b p "FetchResolves r" s] generate_json [OF assms(1) True j, of "createId ''bot'' b"] True
    by (simp split: option.splits)
next
  case False
  with assms consider chunks where "body r = Some (chunks, Done)" | t where "body r = None" "text_result r = Inr t"
    by blast
  then show ?thesis
  proof cases
    case 1
    then show ?thesis
      using handleSend_final [of u b p "FetchResolves r" s] generate_stream [OF assms(1) False 1, of "createId ''bot'' b"] False
      by simp
  next
    case 2
    then show ?thesis
      using handleSend_final [of u b p "FetchResolves r" s] generate_text [OF assms(1) False 2, of "createId ''bot'' b"] False
      by simp
  qed
qed


theorem turnId_precedence_witness:
  "ok (response_hi\<lparr>x_turn_id := Some ''h1''\<rparr>) \<and>
   is_json (response_hi\<lparr>x_turn_id := Some ''h1''\<rparr>) \<and>
   json_result (response_hi\<lparr>x_turn_id := Some ''h1''\<rparr>) = Inr data_hi \<and>
   get_property data_hi ''turn_id'' = Some (JStr ''t1'') \<and>
   turnId (last (messages (run (handleSend ''u1'' ''b1'' ''hello''
                                  (FetchResolves (response_hi\<lparr>x_turn_id := Some ''h1''\<rparr>)))
                             state_ab))) = Some ''h1''"
proof -
  let ?r = "response_hi\<lparr>x_turn_id := Some ''h1''\<rparr>"
  have h1: "ok ?r"
    by (simp add: ok_def response_hi_def)
  have h2: "is_json ?r"
    by (simp add: is_json_def response_hi_def)
  have h3: "json_result ?r = Inr data_hi"
    by (simp add: response_hi_def)
  have h4: "get_property data_hi ''turn_id'' = Some (JStr ''t1'')"
    by (simp add: data_hi_def)
  have a2: "is_json ?r \<longrightarrow> json_result ?r = Inr data_hi"
    using h3 by simp
  have a3: "\<not> is_json ?r \<longrightarrow>
              (\<exists>chunks. body ?r = Some (chunks, Done)) \<or>
              (body ?r = None \<and> (\<exists>t. text_result ?r = Inr t))"
    using h2 by simp
  have r: "turnId (last (messages (run (handleSend ''u1'' ''b1'' ''hello'' (FetchResolves ?r))
                                     state_ab))) = Some ''h1''"
    using turnId_precedence [OF h1 a2 a3, of "''u1''" "''b1''" "''hello''" state_ab]
    by simp
  from h1 h2 h3 h4 r show ?thesis by blast
qed

lemma handleSend_contents:
  "map (\<lambda>t. content (last (messages t))) (tl (trace (handleSend u b p outcome) s)) =
     replicate 4 [] @ streamed outcome @
     (case snd (generate (createId ''bot'' b) outcome) of
        Inr (fc, tid) \<Rightarrow> replicate 2 fc
      | Inl e \<Rightarrow> replicate 3 [])"
proof -
  have "map (\<lambda>t. content (last (messages t))) (tl (trace (handleSend u b p outcome) s)) =
        map content (map (\<lambda>t. last (messages t)) (tl (trace (handleSend u b p outcome) s)))"
    by (simp add: comp_def)
  also have "\<dots> = replicate 4 [] @ streamed outcome @
     (case snd (generate (createId ''bot'' b) outcome) of
        Inr (fc, tid) \<Rightarrow> replicate 2 fc
      | Inl e \<Rightarrow> replicate 3 [])"
    unfolding handleSend_bot_trace
    by (simp add: new_botMessage_def comp_def split: sum.splits)
  finally show ?thesis .
qed

text \<open>
  Claim C7. For a response with a status from 200 to 299, the content of the bot message,
  read after each effect of \<open>handleSend\<close>, is empty for the four effects up to the
  request and then follows one of three courses, tried in this order. If the content type
  is JSON and the body parses to \<open>data\<close>: no update on the way, and the final content is
  the \<open>response\<close> property when that is a string, else \<open>JSON.stringify(data)\<close>, whatever
  \<open>response.body\<close> is. Else, if \<open>response.body\<close> is a stream that is read to its end:
  one update for each chunk, then the whole decoded text. Else, if \<open>response.text()\<close>
  gives \<open>t\<close>: no update on the way, and the final content is \<open>t\<close>. The final content
  is there twice, after the last patch and after \<open>setIsGenerating(false)\<close>.
\<close>

theorem three_response_paths:
  assumes "ok r"
  shows "(is_json r \<and> json_result r = Inr data \<longrightarrow>
            map (\<lambda>t. content (last (messages t))) (tl (trace (handleSend u b p (FetchResolves r)) s)) =
              replicate 4 [] @
              replicate 2 (case get_property data ''response'' of
                             Some (JStr t) \<Rightarrow> t
                           | _ \<Rightarrow> JSON_stringify data)) \<and>
         (\<not> is_json r \<and> body r = Some (chunks, Done) \<longrightarrow>
            map (\<lambda>t. content (last (messages t))) (tl (trace (handleSend u b p (FetchResolves r)) s)) =
              replicate 4 [] @ aggregates chunks @ replicate 2 (stream_text chunks)) \<and>
         (\<not> is_json r \<and> body r = None \<and> text_result r = Inr t \<longrightarrow>
            map (\<lambda>t. content (last (messages t))) (tl (trace (handleSend u b p (FetchResolves r)) s)) =
              replicate 4 [] @ replicate 2 t)"
proof (intro conjI impI)
  assume a: "is_json r \<and> json_result r = Inr data"
  then have j: "is_json r" and d: "json_result r = Inr data" by simp_all
  show "map (\<lambda>t. content (last (messages t))) (tl (trace (handleSend u b p (FetchResolves r)) s)) =
              replicate 4 [] @
              replicate 2 (case get_property data ''response'' of
                             Some (JStr t) \<Rightarrow> t
                           | _ \<Rightarrow> JSON_stringify data)"
    unfolding handleSend_contents generate_json [OF assms j d] streamed_simps(1) [OF assms j]
    by simp
next
  assume a: "\<not> is_json r \<and> body r = Some (chunks, Done)"
  then have j: "\<not> is_json r" and d: "body r = Some (chunks, Done)" by simp_all
  show "map (\<lambda>t. content (last (messages t))) (tl (trace (handleSend u b p (FetchResolves r)) s)) =
              replicate 4 [] @ aggregates chunks @ replicate 2 (stream_text chunks)"
    unfolding handleSend_contents generate_stream [OF assms j d] streamed_simps(2) [OF assms j d]
    by simp
next
  assume a: "\<not> is_json r \<and> body r = None \<and> text_result r = Inr t"
  then have j: "\<not> is_json r" and d: "body r = None" and x: "text_result r = Inr t" by simp_all
  show "map (\<lambda>t. content (last (messages t))) (tl (trace (handleSend u b p (FetchResolves r)) s)) =
              replicate 4 [] @ replicate 2 t"
    unfolding handleSend_contents generate_text [OF assms j d x] streamed_simps(3) [OF assms j d]
    by simp
qed

theorem three_response_paths_witness:
  "ok response_hi \<and> is_json response_hi \<and> json_result response_hi = Inr data_hi \<and>
   map (\<lambda>t. content (last (messages t)))
     (tl (trace (handleSend ''u1'' ''b1'' ''hello'' (FetchResolves response_hi)) state_ab)) =
     [[], [], [], [], ''hi'', ''hi''] \<and>
   ok response_hello \<and> \<not> is_json response_hello \<and>
   body response_hello = Some ([''He'', ''llo''], Done) \<and>
   map (\<lambda>t. content (last (messages t)))
     (tl (trace (handleSend ''u1'' ''b1'' ''hello'' (FetchResolves response_hello)) state_ab)) =
     [[], [], [], [], ''He'', ''Hello'', ''Hello'', ''Hello''] \<and>
   ok (response_200\<lparr>text_result := Inr ''plain''\<rparr>) \<and>
   \<not> is_json (response_200\<lparr>text_result := Inr ''plain''\<rparr>) \<and>
   body (response_200\<lparr>text_result := Inr ''plain''\<rparr>) = None \<and>
   map (\<lambda>t. content (last (messages t)))
     (tl (trace (handleSend ''u1'' ''b1'' ''hello''
                   (FetchResolves (response_200\<lparr>text_result := Inr ''plain''\<rparr>))) state_ab)) =
     [[], [], [], [], ''plain'', ''plain'']"
proof -
  let ?r3 = "response_200\<lparr>text_result := Inr ''plain''\<rparr>"
  have a1: "ok response_hi" and a2: "is_json response_hi"
    and a3: "json_result response_hi = Inr data_hi"
    by (simp_all add: ok_def is_json_def response_hi_def)
  have b1: "ok response_hello" and b2: "\<not> is_json response_hello"
    and b3: "body response_hello = Some ([''He'', ''llo''], Done)"
    by (simp_all add: ok_def is_json_def response_hello_def)
  have c1: "ok ?r3" and c2: "\<not> is_json ?r3" and c3: "body ?r3 = None"
    and c4: "text_result ?r3 = Inr ''plain''"
    by (simp_all add: ok_def is_json_def response_200_def)
  have r1: "map (\<lambda>t. content (last (messages t)))
     (tl (trace (handleSend ''u1'' ''b1'' ''hello'' (FetchResolves response_hi)) state_ab)) =
     [[], [], [], [], ''hi'', ''hi'']"
    using three_response_paths [OF a1, of data_hi "''u1''" "''b1''" "''hello''" state_ab,
        THEN conjunct1] a2 a3
    by (simp add: data_hi_def numeral_eq_Suc)
  have r2: "map (\<lambda>t. content (last (messages t)))
     (tl (trace (handleSend ''u1'' ''b1'' ''hello'' (FetchResolves response_hello)) state_ab)) =
     [[], [], [], [], ''He'', ''Hello'', ''Hello'', ''Hello'']"
    using three_response_paths [OF b1, of _ "''u1''" "''b1''" "''hello''" state_ab
        "[''He'', ''llo'']", THEN conjunct2, THEN conjunct1] b2 b3
    by (simp add: decode_He_llo numeral_eq_Suc)
  have r3: "map (\<lambda>t. content (last (messages t)))
     (tl (trace (handleSend ''u1'' ''b1'' ''hello'' (FetchResolves ?r3)) state_ab)) =
     [[], [], [], [], ''plain'', ''plain'']"
    using three_response_paths [OF c1, of _ "''u1''" "''b1''" "''hello''" state_ab _
        "''plain''", THEN conjunct2, THEN conjunct2] c2 c3 c4
    by (simp add: numeral_eq_Suc)
  from a1 a2 a3 r1 b1 b2 b3 r2 c1 c2 c3 r3 show ?thesis by blast
qed

text \<open>
  Claim C1. Let the response have a status from 200 to 299, a content type that is not
  JSON, and a stream as its body. Read after each effect of \<open>handleSend\<close>, the content of
  the bot message is empty up to the request, and after the \<open>k\<close>-th chunk it is all the
  pieces decoded so far, joined: the whole of \<open>aggregate\<close>, not the last piece. So,
  however the stream ends, every content that is there while the chunks come in is a prefix
  of the text of all the chunks. When the stream is read to its end, the content then is
  the whole decoded text, and every content that was there on the way is a prefix of it.
  (When a read throws, the content is cleared, which is claim C4.) For the chunks \<open>He\<close> and \<open>llo\<close> and no \<open>x-turn-id\<close> header the
  contents are: empty, \<open>He\<close>, \<open>Hello\<close>; the message ends with status \<open>ready\<close> and
  no \<open>turnId\<close>.
\<close>

theorem streamed_content_accumulates:
  assumes "ok r" and "\<not> is_json r" and "body r = Some (chunks, ending)"
  shows "map (\<lambda>t. content (last (messages t))) (tl (trace (handleSend u b p (FetchResolves r)) s)) =
           replicate 4 [] @
           map (\<lambda>k. concat (take (Suc k) (fst (decode_chunks new_TextDecoder chunks))))
             [0..<length chunks] @
           (case ending of
              Done \<Rightarrow> replicate 2 (stream_text chunks)
            | ReadRejects e \<Rightarrow> replicate 3 []) \<and>
         (\<forall>a \<in> set (take (4 + length chunks)
                        (map (\<lambda>t. content (last (messages t)))
                           (tl (trace (handleSend u b p (FetchResolves r)) s)))).
            prefix a (concat (fst (decode_chunks new_TextDecoder chunks)))) \<and>
         (ending = Done \<longrightarrow>
            (\<forall>t \<in> set (tl (trace (handleSend u b p (FetchResolves r)) s)).
               prefix (content (last (messages t)))
                 (content (last (messages (run (handleSend u b p (FetchResolves r)) s)))))) \<and>
         (chunks = [''He'', ''llo''] \<and> ending = Done \<and> x_turn_id r = None \<longrightarrow>
            map (\<lambda>t. content (last (messages t))) (tl (trace (handleSend u b p (FetchResolves r)) s)) =
              [[], [], [], [], ''He'', ''Hello'', ''Hello'', ''Hello''] \<and>
            last (messages (run (handleSend u b p (FetchResolves r)) s)) =
              \<lparr>msg_id = createId ''bot'' b, role = Bot, content = ''Hello'', turnId = None,
               status = Some Ready, error = None\<rparr>)"
proof -
  let ?es = "handleSend u b p (FetchResolves r)"
  let ?bid = "createId ''bot'' b"
  let ?cs = "map (\<lambda>t. content (last (messages t))) (tl (trace ?es s))"
  note st = streamed_simps(2) [OF assms]
  have g: "snd (generate ?bid (FetchResolves r)) =
             (case ending of Done \<Rightarrow> Inr (stream_text chunks, x_turn_id r) | ReadRejects e \<Rightarrow> Inl e)"
  proof (cases ending)
    case Done
    then show ?thesis using generate_stream [OF assms(1,2), of chunks ?bid] assms(3) by simp
  next
    case (ReadRejects e)
    then show ?thesis using generate_fails [of "FetchResolves r" e ?bid] assms by auto
  qed
  have c1: "?cs = replicate 4 [] @
           map (\<lambda>k. concat (take (Suc k) (fst (decode_chunks new_TextDecoder chunks))))
             [0..<length chunks] @
           (case ending of
              Done \<Rightarrow> replicate 2 (stream_text chunks)
            | ReadRejects e \<Rightarrow> replicate 3 [])"
    unfolding handleSend_contents st g aggregates_def by (simp split: stream_end.splits)
  have c1b: "\<forall>a \<in> set (take (4 + length chunks) ?cs).
               prefix a (concat (fst (decode_chunks new_TextDecoder chunks)))"
  proof
    fix a assume a: "a \<in> set (take (4 + length chunks) ?cs)"
    let ?ps = "fst (decode_chunks new_TextDecoder chunks)"
    have "take (4 + length chunks) ?cs =
            replicate 4 [] @ map (\<lambda>k. concat (take (Suc k) ?ps)) [0..<length chunks]"
      unfolding c1 by simp
    with a consider "a = []" | k where "a = concat (take (Suc k) ?ps)"
      by auto
    then show "prefix a (concat ?ps)"
    proof cases
      case 1
      then show ?thesis by simp
    next
      case 2
      have "concat ?ps = concat (take (Suc k) ?ps) @ concat (drop (Suc k) ?ps)"
        by (metis append_take_drop_id concat_append)
      then show ?thesis unfolding 2 by (metis prefixI)
    qed
  qed
  have c2: "\<forall>t \<in> set (tl (trace ?es s)).
               prefix (content (last (messages t))) (content (last (messages (run ?es s))))"
    if d: "ending = Done"
  proof
    fix t assume t: "t \<in> set (tl (trace ?es s))"
    have fin: "content (last (messages (run ?es s))) = stream_text chunks"
      using handleSend_final [of u b p "FetchResolves r" s] g d by (simp add: new_botMessage_def)
    have "content (last (messages t)) \<in> set ?cs"
      using t by auto
    also have "set ?cs \<subseteq> {[]} \<union> set (aggregates chunks) \<union> {stream_text chunks}"
      unfolding handleSend_contents st g d by auto
    finally have "content (last (messages t)) \<in> {[]} \<union> set (aggregates chunks) \<union> {stream_text chunks}" .
    then show "prefix (content (last (messages t))) (content (last (messages (run ?es s))))"
      unfolding fin using aggregate_prefix [of _ chunks] by auto
  qed
  have c3: "?cs = [[], [], [], [], ''He'', ''Hello'', ''Hello'', ''Hello''] \<and>
            last (messages (run ?es s)) =
              \<lparr>msg_id = ?bid, role = Bot, content = ''Hello'', turnId = None,
               status = Some Ready, error = None\<rparr>"
    if h: "chunks = [''He'', ''llo''] \<and> ending = Done \<and> x_turn_id r = None"
  proof -
    from h have g': "snd (generate ?bid (FetchResolves r)) = Inr (''Hello'', None)"
      using g decode_He_llo(2) by simp
    have "?cs = [[], [], [], [], ''He'', ''Hello'', ''Hello'', ''Hello'']"
      unfolding handleSend_contents st g' using h decode_He_llo(1) by (simp add: numeral_eq_Suc)
    moreover have "last (messages (run ?es s)) =
              \<lparr>msg_id = ?bid, role = Bot, content = ''Hello'', turnId = None,
               status = Some Ready, error = None\<rparr>"
      using handleSend_final [of u b p "FetchResolves r" s] g' by (simp add: new_botMessage_def)
    ultimately show ?thesis by simp
  qed
  from c1 c1b c2 c3 show ?thesis by blast
qed


theorem streamed_content_accumulates_witness:
  "ok response_hello \<and> \<not> is_json response_hello \<and>
   body response_hello = Some ([''He'', ''llo''], Done) \<and> x_turn_id response_hello = None \<and>
   map (\<lambda>t. content (last (messages t)))
     (tl (trace (handleSend ''u1'' ''b1'' ''hello'' (FetchResolves response_hello)) state_ab)) =
     [[], [], [], [], ''He'', ''Hello'', ''Hello'', ''Hello''] \<and>
   last (messages (run (handleSend ''u1'' ''b1'' ''hello'' (FetchResolves response_hello))
                     state_ab)) =
     \<lparr>msg_id = ''bot-b1'', role = Bot, content = ''Hello'', turnId = None,
      status = Some Ready, error = None\<rparr> \<and>
   prefix ''He'' (content (last (messages
     (run (handleSend ''u1'' ''b1'' ''hello'' (FetchResolves response_hello)) state_ab))))"
proof -
  have b1: "ok response_hello" and b2: "\<not> is_json response_hello"
    and b3: "body response_hello = Some ([''He'', ''llo''], Done)"
    and b4: "x_turn_id response_hello = None"
    by (simp_all add: ok_def is_json_def response_hello_def)
  note fact = streamed_content_accumulates [OF b1 b2 b3, of "''u1''" "''b1''" "''hello''" state_ab]
  have r: "map (\<lambda>t. content (last (messages t)))
     (tl (trace (handleSend ''u1'' ''b1'' ''hello'' (FetchResolves response_hello)) state_ab)) =
     [[], [], [], [], ''He'', ''Hello'', ''Hello'', ''Hello''] \<and>
   last (messages (run (handleSend ''u1'' ''b1'' ''hello'' (FetchResolves response_hello))
                     state_ab)) =
     \<lparr>msg_id = ''bot-b1'', role = Bot, content = ''Hello'', turnId = None,
      status = Some Ready, error = None\<rparr>"
    using fact [THEN conjunct2, THEN conjunct2, THEN conjunct2] b4 by (simp add: createId_def)
  then have p: "prefix ''He'' (content (last (messages
     (run (handleSend ''u1'' ''b1'' ''hello'' (FetchResolves response_hello)) state_ab))))"
    by simp
  from b1 b2 b3 b4 r p show ?thesis by blast
qed
end
